theory Spec2Isabelle
  imports Complex_Main "HOL-Library.Log_Nat"
begin

section \<open>Strings and numbers of the source\<close>

text \<open>
  A JavaScript string is its sequence of UTF-16 code units; every literal of the sources
  lies in the Basic Multilingual Plane, so a code unit is a code point. A number is an
  IEEE 754 double, modelled by the rational it denotes; the result of an arithmetic
  operation is the exact result rounded to the nearest double by \<open>fl\<close> below. NaN,
  the infinities and the negative zero are outside the model (the built-in
  \<open>parseFloat\<close> returns \<open>None\<close> where JavaScript returns NaN). An optional or
  nullable field is an \<open>option\<close>.
\<close>

type_synonym jsstring = "nat list"
type_synonym number = rat

text \<open>
  Rounding to the nearest double, ties to the even significand. \<open>expo x\<close> is the
  binary exponent of \<open>x\<close> (\<open>2 ^ expo x \<le> |x| < 2 ^ (expo x + 1)\<close>); a double of
  that exponent is a multiple of \<open>2 ^ (expo x - 52)\<close>, and below the exponent -1022
  the doubles are the multiples of \<open>2 ^ -1074\<close>. Overflow to infinity is not
  modelled: the operations below are applied to values far from the largest double.
\<close>

definition round_even :: "rat \<Rightarrow> int" where
  "round_even y =
     (let f = \<lfloor>y\<rfloor>; d = y - of_int f
      in if d < 1 / 2 then f else if d > 1 / 2 then f + 1 else if even f then f else f + 1)"

definition expo :: "rat \<Rightarrow> int" where
  "expo x =
     (case quotient_of \<bar>x\<bar> of (p, q) \<Rightarrow>
        let k = bitlen p - bitlen q
        in if 2 powi k \<le> \<bar>x\<bar> then k else k - 1)"

definition fl :: "rat \<Rightarrow> number" where
  "fl x =
     (if x = 0 then 0
      else let e = max (expo x) (- 1022); ulp = 2 powi (e - 52)
           in of_int (round_even (x / ulp)) * ulp)"

abbreviation str :: "string \<Rightarrow> jsstring" where
  "str s \<equiv> map of_char s"

text \<open>Truthiness of a possibly undefined string, and the operator \<open>||\<close> on such values.\<close>

fun truthy :: "jsstring option \<Rightarrow> bool" where
  "truthy None = False"
| "truthy (Some s) = (s \<noteq> [])"

definition or_else :: "jsstring option \<Rightarrow> jsstring option \<Rightarrow> jsstring option" where
  "or_else a b = (if truthy a then a else b)"

definition or_default :: "jsstring option \<Rightarrow> jsstring \<Rightarrow> jsstring" where
  "or_default a d = (if truthy a then the a else d)"

text \<open>Truthiness of a possibly undefined number: zero is falsy.\<close>

fun truthy_num :: "number option \<Rightarrow> bool" where
  "truthy_num None = False"
| "truthy_num (Some x) = (x \<noteq> 0)"

text \<open>\<open>String(n)\<close> for a non-negative integer, as template literals render an index.\<close>

fun decimal :: "nat \<Rightarrow> jsstring" where
  "decimal n = (if n < 10 then [48 + n] else decimal (n div 10) @ [48 + n mod 10])"

declare decimal.simps [simp del]

definition undecimal :: "jsstring \<Rightarrow> nat" where
  "undecimal s = foldl (\<lambda>acc d. 10 * acc + (d - 48)) 0 s"

text \<open>
  The white space of \<open>String.prototype.trim\<close> and of the regular expression class
  \<open>\s\<close>: TAB, LF, VT, FF, CR, SP, NBSP, the Unicode space separators, LS, PS and the
  byte order mark.
\<close>

definition is_space :: "nat \<Rightarrow> bool" where
  "is_space c \<longleftrightarrow>
     c \<in> {0x09, 0x0A, 0x0B, 0x0C, 0x0D, 0x20, 0xA0, 0x1680, 0x2028, 0x2029, 0x202F, 0x205F,
          0x3000, 0xFEFF} \<or> (0x2000 \<le> c \<and> c \<le> 0x200A)"

definition trim :: "jsstring \<Rightarrow> jsstring" where
  "trim s = rev (dropWhile is_space (rev (dropWhile is_space s)))"

text \<open>\<open>s.replace(/\s+/g, '')\<close>: every run of white space is deleted.\<close>

definition remove_spaces :: "jsstring \<Rightarrow> jsstring" where
  "remove_spaces s = filter (\<lambda>c. \<not> is_space c) s"

text \<open>\<open>s.replace(/,/g, '')\<close>: every comma is deleted.\<close>

definition remove_commas :: "jsstring \<Rightarrow> jsstring" where
  "remove_commas s = filter (\<lambda>c. c \<noteq> 0x2C) s"

section \<open>The parser base class (parsers/base.ts)\<close>

text \<open>
  A parsed CSV row is the object Papa Parse builds under \<open>header: true\<close>: the column
  names of the header with the cell of each column. \<open>row.col\<close> is the lookup; a column
  the row does not have reads as undefined.
\<close>

type_synonym row = "(jsstring \<times> jsstring) list"

definition col :: "row \<Rightarrow> jsstring \<Rightarrow> jsstring option" where
  "col r k = map_of r k"

record RawLandData =
  sourceCity :: jsstring
  district :: jsstring
  section' :: "jsstring option"
  landNumber :: jsstring
  ownerName :: "jsstring option"
  areaM2 :: "number option"
  areaPing :: "number option"
  status :: "jsstring option"
  rawData :: "row option"

text \<open>
  The decimal that \<open>x.toFixed(2)\<close> prints for a double \<open>x\<close>: the multiple of 1/100
  nearest to the exact value of \<open>x\<close>, a tie going away from zero; from \<open>10^21\<close> on
  \<open>toFixed\<close> prints the number itself. \<open>Number\<close> reads the decimal back as the
  nearest double, and the division by the literal 3.30579 is a division of doubles.
\<close>

definition toFixed2 :: "number \<Rightarrow> number" where
  "toFixed2 x =
     (if \<bar>x\<bar> \<ge> 10 ^ 21 then x
      else sgn x * (of_int \<lfloor>\<bar>x\<bar> * 100 + 1 / 2\<rfloor> / 100))"

definition m2ToPing :: "number \<Rightarrow> number" where
  "m2ToPing m2 = fl (toFixed2 (fl (m2 / fl 3.30579)))"

definition cleanOwnerName :: "jsstring option \<Rightarrow> jsstring option" where
  "cleanOwnerName name =
     (if \<not> truthy name then None else Some (remove_spaces (trim (the name))))"

text \<open>\<open>parseFloat\<close> is the built-in, a parameter of the model.\<close>

definition parseArea :: "(jsstring \<Rightarrow> number option) \<Rightarrow> jsstring option \<Rightarrow> number option" where
  "parseArea parseFloat areaStr =
     (if \<not> truthy areaStr then None else parseFloat (remove_commas (the areaStr)))"

section \<open>Column names and string constants of the sources\<close>

text \<open>The literals are written by their code points; the comment gives the reading.\<close>

abbreviation Taipei_City :: jsstring where \<comment> \<open>U+53F0 U+5317 U+5E02\<close>
  "Taipei_City \<equiv> [0x53F0, 0x5317, 0x5E02]"
abbreviation Taipei_City_variant :: jsstring where \<comment> \<open>U+81FA U+5317 U+5E02\<close>
  "Taipei_City_variant \<equiv> [0x81FA, 0x5317, 0x5E02]"
abbreviation New_Taipei_City :: jsstring where \<comment> \<open>U+65B0 U+5317 U+5E02\<close>
  "New_Taipei_City \<equiv> [0x65B0, 0x5317, 0x5E02]"
abbreviation Chiayi_City :: jsstring where \<comment> \<open>U+5609 U+7FA9 U+5E02\<close>
  "Chiayi_City \<equiv> [0x5609, 0x7FA9, 0x5E02]"
abbreviation Chiayi_County :: jsstring where \<comment> \<open>U+5609 U+7FA9 U+7E23\<close>
  "Chiayi_County \<equiv> [0x5609, 0x7FA9, 0x7E23]"
abbreviation Changhua_County :: jsstring where \<comment> \<open>U+5F70 U+5316 U+7E23\<close>
  "Changhua_County \<equiv> [0x5F70, 0x5316, 0x7E23]"

abbreviation unknown_district :: jsstring where \<comment> \<open>U+672A U+77E5 U+5340, "unknown district"\<close>
  "unknown_district \<equiv> [0x672A, 0x77E5, 0x5340]"
abbreviation under_management :: jsstring where \<comment> \<open>U+5217 U+7BA1 U+4E2D, "under management"\<close>
  "under_management \<equiv> [0x5217, 0x7BA1, 0x4E2D]"

abbreviation k_decedent_name :: jsstring where \<comment> \<open>column U+88AB U+7E7C U+627F U+4EBA U+59D3 U+540D\<close>
  "k_decedent_name \<equiv> [0x88AB, 0x7E7C, 0x627F, 0x4EBA, 0x59D3, 0x540D]"
abbreviation k_decedent :: jsstring where \<comment> \<open>column U+88AB U+7E7C U+627F U+4EBA\<close>
  "k_decedent \<equiv> [0x88AB, 0x7E7C, 0x627F, 0x4EBA]"
abbreviation k_name :: jsstring where \<comment> \<open>column U+59D3 U+540D\<close>
  "k_name \<equiv> [0x59D3, 0x540D]"
abbreviation k_land_zone :: jsstring where \<comment> \<open>column U+571F U+5730 U+5340 U+6BB5\<close>
  "k_land_zone \<equiv> [0x571F, 0x5730, 0x5340, 0x6BB5]"
abbreviation k_region :: jsstring where \<comment> \<open>column U+5340 U+57DF\<close>
  "k_region \<equiv> [0x5340, 0x57DF]"
abbreviation k_township :: jsstring where \<comment> \<open>column U+9109 U+93AE U+5E02 U+5340\<close>
  "k_township \<equiv> [0x9109, 0x93AE, 0x5E02, 0x5340]"
abbreviation k_land_section :: jsstring where \<comment> \<open>column U+5730 U+6BB5\<close>
  "k_land_section \<equiv> [0x5730, 0x6BB5]"
abbreviation k_sect :: jsstring where \<comment> \<open>column U+6BB5\<close>
  "k_sect \<equiv> [0x6BB5]"
abbreviation k_land_number :: jsstring where \<comment> \<open>column U+5730 U+865F\<close>
  "k_land_number \<equiv> [0x5730, 0x865F]"
abbreviation k_subsection :: jsstring where \<comment> \<open>column U+5C0F U+6BB5\<close>
  "k_subsection \<equiv> [0x5C0F, 0x6BB5]"
abbreviation k_area :: jsstring where \<comment> \<open>column U+9762 U+7A4D\<close>
  "k_area \<equiv> [0x9762, 0x7A4D]"
abbreviation k_land_area :: jsstring where \<comment> \<open>column U+571F U+5730 U+9762 U+7A4D\<close>
  "k_land_area \<equiv> [0x571F, 0x5730, 0x9762, 0x7A4D]"
abbreviation k_listing :: jsstring where \<comment> \<open>column U+5217 U+7BA1 U+60C5 U+5F62\<close>
  "k_listing \<equiv> [0x5217, 0x7BA1, 0x60C5, 0x5F62]"
abbreviation k_management :: jsstring where \<comment> \<open>column U+7BA1 U+7406 U+60C5 U+5F62\<close>
  "k_management \<equiv> [0x7BA1, 0x7406, 0x60C5, 0x5F62]"

section \<open>The parsers (parsers/taipei.ts, parsers/chiayi.ts, parsers/changhua.ts)\<close>

text \<open>
  Each \<open>parse\<close> hands the CSV text to \<open>Papa.parse\<close>, a library outside the repository,
  and works on the rows it returns (\<open>result.data\<close>): a filter, then a map that sees each
  kept row with its index among the kept rows. The functions below take those rows;
  \<open>parseFloat\<close> is passed on to \<open>parseArea\<close>.
\<close>

definition TaipeiParser_keep :: "row \<Rightarrow> bool" where
  "TaipeiParser_keep r \<longleftrightarrow> truthy (col r k_decedent_name) \<or> truthy (col r k_land_number)"

definition TaipeiParser_record ::
  "(jsstring \<Rightarrow> number option) \<Rightarrow> row \<Rightarrow> nat \<Rightarrow> RawLandData" where
  "TaipeiParser_record parseFloat r index =
     \<lparr> sourceCity = Taipei_City,
       district = or_default (col r k_land_zone) unknown_district,
       section' = col r k_land_section,
       landNumber = or_default (col r k_land_number) (str ''unknown-'' @ decimal index),
       ownerName = cleanOwnerName (col r k_decedent_name),
       areaM2 = parseArea parseFloat (col r k_area),
       areaPing = (if truthy_num (parseArea parseFloat (col r k_area))
                   then Some (m2ToPing (the (parseArea parseFloat (col r k_area)))) else None),
       status = Some (or_default (col r k_listing) under_management),
       rawData = Some r \<rparr>"

definition TaipeiParser_parse :: "(jsstring \<Rightarrow> number option) \<Rightarrow> row list \<Rightarrow> RawLandData list" where
  "TaipeiParser_parse parseFloat rows =
     map (\<lambda>(index, r). TaipeiParser_record parseFloat r index)
       (enumerate 0 (filter TaipeiParser_keep rows))"

definition ChiayiParser_cityName :: "bool \<Rightarrow> jsstring" where
  "ChiayiParser_cityName isCounty = (if isCounty then Chiayi_County else Chiayi_City)"

definition ChiayiParser_keep :: "row \<Rightarrow> bool" where
  "ChiayiParser_keep r \<longleftrightarrow>
     truthy (col r k_decedent) \<or> truthy (col r k_name) \<or> truthy (col r k_land_number)"

definition ChiayiParser_record ::
  "bool \<Rightarrow> (jsstring \<Rightarrow> number option) \<Rightarrow> row \<Rightarrow> nat \<Rightarrow> RawLandData" where
  "ChiayiParser_record isCounty parseFloat r index =
     (let ownerName = or_else (col r k_decedent) (col r k_name);
          district = or_default (or_else (col r k_region) (col r k_township)) unknown_district;
          section' = or_else (col r k_land_section) (col r k_sect);
          landNumber = or_default (col r k_land_number)
                         (if truthy (col r k_subsection) then the (col r k_subsection)
                          else str ''unknown-'' @ decimal index);
          areaStr = or_else (col r k_area) (col r k_land_area);
          areaM2 = parseArea parseFloat areaStr
      in \<lparr> sourceCity = ChiayiParser_cityName isCounty,
           district = district,
           section' = section',
           landNumber = landNumber,
           ownerName = cleanOwnerName ownerName,
           areaM2 = areaM2,
           areaPing = (if truthy_num areaM2 then Some (m2ToPing (the areaM2)) else None),
           status = Some (or_default (col r k_management) under_management),
           rawData = Some r \<rparr>)"

definition ChiayiParser_parse ::
  "bool \<Rightarrow> (jsstring \<Rightarrow> number option) \<Rightarrow> row list \<Rightarrow> RawLandData list" where
  "ChiayiParser_parse isCounty parseFloat rows =
     map (\<lambda>(index, r). ChiayiParser_record isCounty parseFloat r index)
       (enumerate 0 (filter ChiayiParser_keep rows))"

definition ChanghuaParser_keep :: "row \<Rightarrow> bool" where
  "ChanghuaParser_keep r \<longleftrightarrow> truthy (col r k_decedent_name) \<or> truthy (col r k_land_number)"

definition ChanghuaParser_record ::
  "(jsstring \<Rightarrow> number option) \<Rightarrow> row \<Rightarrow> nat \<Rightarrow> RawLandData" where
  "ChanghuaParser_record parseFloat r index =
     (let areaM2 = parseArea parseFloat (col r k_area)
      in \<lparr> sourceCity = Changhua_County,
           district = or_default (col r k_township) unknown_district,
           section' = col r k_land_section,
           landNumber = or_default (col r k_land_number) (str ''unknown-'' @ decimal index),
           ownerName = cleanOwnerName (col r k_decedent_name),
           areaM2 = areaM2,
           areaPing = (if truthy_num areaM2 then Some (m2ToPing (the areaM2)) else None),
           status = Some (or_default (col r k_listing) under_management),
           rawData = Some r \<rparr>)"

definition ChanghuaParser_parse :: "(jsstring \<Rightarrow> number option) \<Rightarrow> row list \<Rightarrow> RawLandData list" where
  "ChanghuaParser_parse parseFloat rows =
     map (\<lambda>(index, r). ChanghuaParser_record parseFloat r index)
       (enumerate 0 (filter ChanghuaParser_keep rows))"

section \<open>The normalizer (normalizer.ts)\<close>

record Coords =
  lat :: number
  lng :: number

text \<open>
  What \<open>table[key]\<close> reads from an object literal: the value written under the key,
  or, for a key the literal does not have, the member of that name which every object
  inherits from \<open>Object.prototype\<close> (a function, or the prototype itself for
  \<open>__proto__\<close>: never a string or a coordinate pair, and always truthy), or undefined.
\<close>

datatype 'a property = Own 'a | Inherited jsstring

definition object_prototype_keys :: "jsstring list" where
  "object_prototype_keys =
     [str ''constructor'', str ''__defineGetter__'', str ''__defineSetter__'',
      str ''hasOwnProperty'', str ''__lookupGetter__'', str ''__lookupSetter__'',
      str ''isPrototypeOf'', str ''propertyIsEnumerable'', str ''toString'', str ''valueOf'',
      str ''__proto__'', str ''toLocaleString'']"

definition lookup_property :: "(jsstring \<times> 'a) list \<Rightarrow> jsstring \<Rightarrow> 'a property option" where
  "lookup_property table key =
     (case map_of table key of
        Some v \<Rightarrow> Some (Own v)
      | None \<Rightarrow> if key \<in> set object_prototype_keys then Some (Inherited key) else None)"

record NormalizedLand =
  sourceCity :: "jsstring property"
  district :: jsstring
  section' :: "jsstring option"
  landNumber :: jsstring
  ownerName :: "jsstring option"
  areaM2 :: "number option"
  areaPing :: "number option"
  status :: jsstring
  coordinates :: "Coords property option"
  rawData :: "row option"
  sourceUrl :: "jsstring option"

text \<open>
  The lookup tables, as the object literals the source writes down; a decimal literal is
  the double nearest to it.
\<close>

definition CITY_NAME_MAP :: "(jsstring \<times> jsstring) list" where
  "CITY_NAME_MAP =
     [(Taipei_City, Taipei_City),
      (Taipei_City_variant, Taipei_City),
      (str ''Taipei'', Taipei_City),
      (New_Taipei_City, New_Taipei_City),
      (str ''NewTaipei'', New_Taipei_City),
      (Chiayi_City, Chiayi_City),
      (Chiayi_County, Chiayi_County),
      (Changhua_County, Changhua_County)]"

definition DISTRICT_COORDS :: "(jsstring \<times> Coords) list" where
  "DISTRICT_COORDS =
     [([0x4E2D, 0x6B63, 0x5340], \<lparr>lat = fl 25.0324, lng = fl 121.5198\<rparr>),
      ([0x5927, 0x540C, 0x5340], \<lparr>lat = fl 25.0656, lng = fl 121.5130\<rparr>),
      ([0x4E2D, 0x5C71, 0x5340], \<lparr>lat = fl 25.0648, lng = fl 121.5332\<rparr>),
      ([0x677E, 0x5C71, 0x5340], \<lparr>lat = fl 25.0607, lng = fl 121.5579\<rparr>),
      ([0x5927, 0x5B89, 0x5340], \<lparr>lat = fl 25.0268, lng = fl 121.5435\<rparr>),
      ([0x842C, 0x83EF, 0x5340], \<lparr>lat = fl 25.0319, lng = fl 121.4970\<rparr>),
      ([0x4FE1, 0x7FA9, 0x5340], \<lparr>lat = fl 25.0306, lng = fl 121.5675\<rparr>),
      ([0x58EB, 0x6797, 0x5340], \<lparr>lat = fl 25.0929, lng = fl 121.5198\<rparr>),
      ([0x5317, 0x6295, 0x5340], \<lparr>lat = fl 25.1320, lng = fl 121.5010\<rparr>),
      ([0x5167, 0x6E56, 0x5340], \<lparr>lat = fl 25.0697, lng = fl 121.5883\<rparr>),
      ([0x5357, 0x6E2F, 0x5340], \<lparr>lat = fl 25.0547, lng = fl 121.6069\<rparr>),
      ([0x6587, 0x5C71, 0x5340], \<lparr>lat = fl 24.9984, lng = fl 121.5706\<rparr>),
      ([0x6771, 0x5340], \<lparr>lat = fl 23.4870, lng = fl 120.4580\<rparr>),
      ([0x897F, 0x5340], \<lparr>lat = fl 23.4750, lng = fl 120.4310\<rparr>),
      ([0x5F70, 0x5316, 0x5E02], \<lparr>lat = fl 24.0815, lng = fl 120.5382\<rparr>),
      ([0x54E1, 0x6797, 0x5E02], \<lparr>lat = fl 23.9588, lng = fl 120.5742\<rparr>),
      ([0x9E7F, 0x6E2F, 0x93AE], \<lparr>lat = fl 24.0568, lng = fl 120.4356\<rparr>)]"

definition cityCenters :: "(jsstring \<times> Coords) list" where
  "cityCenters =
     [(Taipei_City, \<lparr>lat = fl 25.0330, lng = fl 121.5654\<rparr>),
      (Chiayi_City, \<lparr>lat = fl 23.4801, lng = fl 120.4491\<rparr>),
      (Chiayi_County, \<lparr>lat = fl 23.4518, lng = fl 120.2555\<rparr>),
      (Changhua_County, \<lparr>lat = fl 24.0518, lng = fl 120.5161\<rparr>)]"

text \<open>
  \<open>district.replace(/^(A|B|...)/, '')\<close>: the first alternative that the string starts
  with is removed from its front; a string that starts with none is unchanged.
\<close>

definition city_prefixes :: "jsstring list" where
  "city_prefixes = [Taipei_City, Taipei_City_variant, New_Taipei_City, Chiayi_City,
                    Chiayi_County, Changhua_County]"

definition starts_with :: "jsstring \<Rightarrow> jsstring \<Rightarrow> bool" where
  "starts_with s p \<longleftrightarrow> take (length p) s = p"

definition strip_city_prefix :: "jsstring \<Rightarrow> jsstring" where
  "strip_city_prefix d =
     (case find (starts_with d) city_prefixes of
        Some p \<Rightarrow> drop (length p) d
      | None \<Rightarrow> d)"

text \<open>
  \<open>city\<close> is what the normalizer passes: the city name, or an inherited member of
  \<open>CITY_NAME_MAP\<close>; used as a key of \<open>cityCenters\<close> the latter is converted to its
  text (the source text of a function, or \<open>[object Object]\<close>), which is no key of the
  table and no member of \<open>Object.prototype\<close>.
\<close>

definition getCoordinatesForDistrict :: "jsstring property \<Rightarrow> jsstring \<Rightarrow> Coords property option" where
  "getCoordinatesForDistrict cityName d =
     (if lookup_property DISTRICT_COORDS d \<noteq> None then lookup_property DISTRICT_COORDS d
      else let cleanDistrict = strip_city_prefix d in
        if lookup_property DISTRICT_COORDS cleanDistrict \<noteq> None
        then lookup_property DISTRICT_COORDS cleanDistrict
        else (case cityName of
                Own name \<Rightarrow> lookup_property cityCenters name
              | Inherited key \<Rightarrow> None))"

text \<open>
  \<open>CITY_NAME_MAP[data.sourceCity] || data.sourceCity\<close>: the entries of the table are
  non-empty strings and an inherited member is truthy.
\<close>

definition normalizeCity :: "jsstring \<Rightarrow> jsstring property" where
  "normalizeCity name =
     (case lookup_property CITY_NAME_MAP name of
        Some (Own canonical) \<Rightarrow> if canonical \<noteq> [] then Own canonical else Own name
      | Some (Inherited key) \<Rightarrow> Inherited key
      | None \<Rightarrow> Own name)"

definition normalizeRecord :: "jsstring option \<Rightarrow> RawLandData \<Rightarrow> NormalizedLand" where
  "normalizeRecord url data =
     (let normalizedCity = normalizeCity (RawLandData.sourceCity data);
          coords = getCoordinatesForDistrict normalizedCity (RawLandData.district data)
      in \<lparr> sourceCity = normalizedCity,
           district = RawLandData.district data,
           section' = or_else (RawLandData.section' data) None,
           landNumber = RawLandData.landNumber data,
           ownerName = or_else (RawLandData.ownerName data) None,
           areaM2 = (if truthy_num (RawLandData.areaM2 data) then RawLandData.areaM2 data else None),
           areaPing = (if truthy_num (RawLandData.areaPing data) then RawLandData.areaPing data
                       else if truthy_num (RawLandData.areaM2 data)
                         then Some (fl (toFixed2 (fl (the (RawLandData.areaM2 data) / fl 3.30579))))
                         else None),
           status = or_default (RawLandData.status data) under_management,
           coordinates = coords,
           rawData = RawLandData.rawData data,
           sourceUrl = or_else url None \<rparr>)"

definition normalizeData :: "RawLandData list \<Rightarrow> jsstring option \<Rightarrow> NormalizedLand list" where
  "normalizeData raw url = map (normalizeRecord url) raw"

section \<open>The fetcher (fetcher.ts)\<close>

record FetchResult =
  success :: bool
  data :: "jsstring option"
  error :: "jsstring option"
  recordCount :: "nat option"

text \<open>
  What one awaited request gives the fetcher: the request or the reading of its body
  throws (\<open>Threw\<close> carries \<open>String(error)\<close>), the response is not ok (with its
  status), or it is ok (with its decoded body).
\<close>

datatype 'a response = Threw jsstring | NotOk nat | Ok 'a

record Resource =
  format :: "jsstring option"
  resourceFormat :: "jsstring option"
  resourceDownloadUrl :: "jsstring option"

text \<open>
  The world outside the repository, as the pipeline reads it: the built-in \<open>parseFloat\<close>,
  \<open>Papa.parse\<close> under \<open>header: true\<close> (the flag is \<open>skipEmptyLines\<close>) and
  \<open>Papa.unparse\<close>, the paginated listing of data.taipei (by dataset id, limit and offset;
  the body is \<open>json.result?.results || []\<close>), the metadata document of data.gov.tw
  (its \<open>resources\<close>, by dataset id) and the download of a resource (by URL).
\<close>

record 'j env =
  parseFloat :: "jsstring \<Rightarrow> number option"
  papaParse :: "bool \<Rightarrow> jsstring \<Rightarrow> row list"
  papaUnparse :: "'j list \<Rightarrow> jsstring"
  taipeiApi :: "jsstring \<Rightarrow> nat \<Rightarrow> nat \<Rightarrow> 'j list response"
  dataGovMeta :: "jsstring \<Rightarrow> Resource list option response"
  download :: "jsstring \<Rightarrow> jsstring response"

definition failure :: "jsstring \<Rightarrow> FetchResult" where
  "failure msg = \<lparr>success = False, data = None, error = Some msg, recordCount = None\<rparr>"

text \<open>
  \<open>toLowerCase\<close> on the letters A to Z; no other code unit has a lower case among the
  letters of \<open>csv\<close>, so the comparison below is the source's.
\<close>

definition toLowerCase :: "jsstring \<Rightarrow> jsstring" where
  "toLowerCase s = map (\<lambda>c. if 0x41 \<le> c \<and> c \<le> 0x5A then c + 0x20 else c) s"

definition is_csv :: "jsstring option \<Rightarrow> bool" where
  "is_csv f = (case f of None \<Rightarrow> False | Some s \<Rightarrow> toLowerCase s = str ''csv'')"

definition fetchFromDataGov :: "'j env \<Rightarrow> jsstring \<Rightarrow> FetchResult" where
  "fetchFromDataGov e datasetId =
     (case dataGovMeta e datasetId of
        Threw err \<Rightarrow> failure err
      | NotOk st \<Rightarrow> failure (str ''Failed to fetch metadata: '' @ decimal st)
      | Ok resources \<Rightarrow>
          (case (case resources of None \<Rightarrow> None
                 | Some rs \<Rightarrow> find (\<lambda>r. is_csv (format r) \<or> is_csv (resourceFormat r)) rs) of
             None \<Rightarrow> failure (str ''No CSV resource found in dataset'')
           | Some csvResource \<Rightarrow>
               if \<not> truthy (resourceDownloadUrl csvResource)
               then failure (str ''No CSV resource found in dataset'')
               else (case download e (the (resourceDownloadUrl csvResource)) of
                       Threw err \<Rightarrow> failure err
                     | NotOk st \<Rightarrow> failure (str ''Failed to fetch CSV: '' @ decimal st)
                     | Ok csvData \<Rightarrow>
                         \<lparr>success = True, data = Some csvData, error = None,
                          recordCount = Some (length (papaParse e False csvData))\<rparr>)))"

text \<open>
  The \<open>while (true)\<close> loop of \<open>fetchFromTaipei\<close>. Its state is the offset and the
  records accumulated so far; the model also keeps the offsets requested so far, so that
  the requests the loop makes can be talked about. The loop leaves by \<open>return\<close> (a failed
  request) or by \<open>break\<close> (an empty page, or the safety limit).
\<close>

datatype 'j loop_exit = Return FetchResult | Break "'j list"

function taipei_loop ::
  "(nat \<Rightarrow> 'j list response) \<Rightarrow> nat \<Rightarrow> nat \<Rightarrow> 'j list \<Rightarrow> nat list \<Rightarrow> nat list \<times> 'j loop_exit" where
  "taipei_loop api limit offset allRecords requested =
     (case api offset of
        Threw err \<Rightarrow> (requested @ [offset], Return (failure err))
      | NotOk st \<Rightarrow>
          (requested @ [offset], Return (failure (str ''Failed to fetch: '' @ decimal st)))
      | Ok records \<Rightarrow>
          if length records = 0 then (requested @ [offset], Break allRecords)
          else if length (allRecords @ records) > 100000
            then (requested @ [offset], Break (allRecords @ records))
            else taipei_loop api limit (offset + limit) (allRecords @ records)
                   (requested @ [offset]))"
  by pat_completeness auto
termination
  by (relation "measure (\<lambda>(api, limit, offset, allRecords, requested). 100001 - length allRecords)")
    (auto simp: neq_Nil_conv)

declare taipei_loop.simps [simp del]

definition fetchFromTaipei_run :: "'j env \<Rightarrow> jsstring \<Rightarrow> nat list \<times> 'j loop_exit" where
  "fetchFromTaipei_run e datasetId = taipei_loop (taipeiApi e datasetId 1000) 1000 0 [] []"

definition fetchFromTaipei :: "'j env \<Rightarrow> jsstring \<Rightarrow> FetchResult" where
  "fetchFromTaipei e datasetId =
     (case snd (fetchFromTaipei_run e datasetId) of
        Return r \<Rightarrow> r
      | Break allRecords \<Rightarrow>
          if length allRecords = 0 then failure (str ''No records found'')
          else \<lparr>success = True, data = Some (papaUnparse e allRecords), error = None,
                recordCount = Some (length allRecords)\<rparr>)"

section \<open>One city's sync (the cron route, syncCityData)\<close>

record DbRecord =
  source_city :: "jsstring property"
  district :: jsstring
  section' :: "jsstring option"
  land_number :: jsstring
  owner_name :: "jsstring option"
  area_m2 :: "number option"
  area_ping :: "number option"
  status :: jsstring
  coordinates :: "Coords property option"
  raw_data :: "row option"
  source_url :: "jsstring option"

definition dbRecord :: "NormalizedLand \<Rightarrow> DbRecord" where
  "dbRecord land =
     \<lparr> source_city = NormalizedLand.sourceCity land,
       district = NormalizedLand.district land,
       section' = NormalizedLand.section' land,
       land_number = NormalizedLand.landNumber land,
       owner_name = NormalizedLand.ownerName land,
       area_m2 = NormalizedLand.areaM2 land,
       area_ping = NormalizedLand.areaPing land,
       status = NormalizedLand.status land,
       coordinates = NormalizedLand.coordinates land,
       raw_data = NormalizedLand.rawData land,
       source_url = NormalizedLand.sourceUrl land \<rparr>"

text \<open>
  The store is an external collaborator. One awaited
  \<open>upsert(dbRecords, {onConflict: ...}).select()\<close> takes the store from one state to the
  next and answers \<open>{data, error}\<close>: an error, or the rows written (\<open>data\<close> may be null).
  The sync is written against any such store.
\<close>

datatype upsert_result = UpsertError jsstring | UpsertData "DbRecord list option"

type_synonym 's upsert = "'s \<Rightarrow> DbRecord list \<Rightarrow> upsert_result \<times> 's"

definition slice :: "nat \<Rightarrow> nat \<Rightarrow> 'a list \<Rightarrow> 'a list" where
  "slice i j xs = take (j - i) (drop i xs)"

definition written :: "upsert_result \<Rightarrow> nat" where
  "written res = (case res of UpsertError err \<Rightarrow> 0
                  | UpsertData None \<Rightarrow> 0
                  | UpsertData (Some rows) \<Rightarrow> length rows)"

definition batchSize :: nat where
  "batchSize = 100"

function upsert_batches ::
  "'s upsert \<Rightarrow> NormalizedLand list \<Rightarrow> nat \<Rightarrow> nat \<Rightarrow> 's \<Rightarrow> nat \<times> 's" where
  "upsert_batches upsert normalizedData i totalRecords st =
     (if i < length normalizedData then
        (let batch = slice i (i + batchSize) normalizedData;
             dbRecords = map dbRecord batch;
             (res, st') = upsert st dbRecords
         in upsert_batches upsert normalizedData (i + batchSize) (totalRecords + written res) st')
      else (totalRecords, st))"
  by pat_completeness auto
termination
  by (relation "measure (\<lambda>(upsert, normalizedData, i, totalRecords, st). length normalizedData - i)")
    (auto simp: batchSize_def)

declare upsert_batches.simps [simp del]

record SyncResult =
  city :: jsstring
  success :: bool
  recordCount :: nat
  error :: "jsstring option"

text \<open>
  The \<open>switch\<close> of \<open>syncCityData\<close>: the fetch it awaits and the parser it builds. Both
  Chiayi branches call \<open>new ChiayiParser()\<close>, that is \<open>isCounty = false\<close>.
\<close>

definition city_source ::
  "'j env \<Rightarrow> jsstring \<Rightarrow> (FetchResult \<times> (jsstring \<Rightarrow> RawLandData list)) option" where
  "city_source e c =
     (if c = Taipei_City then
        Some (fetchFromTaipei e (str ''134972''),
              \<lambda>csv. TaipeiParser_parse (parseFloat e) (papaParse e True csv))
      else if c = Chiayi_City then
        Some (fetchFromDataGov e (str ''52344''),
              \<lambda>csv. ChiayiParser_parse False (parseFloat e) (papaParse e True csv))
      else if c = Chiayi_County then
        Some (fetchFromDataGov e (str ''133739''),
              \<lambda>csv. ChiayiParser_parse False (parseFloat e) (papaParse e True csv))
      else if c = Changhua_County then
        Some (fetchFromDataGov e (str ''28529''),
              \<lambda>csv. ChanghuaParser_parse (parseFloat e) (papaParse e True csv))
      else None)"

definition syncCityData :: "'j env \<Rightarrow> 's upsert \<Rightarrow> jsstring \<Rightarrow> 's \<Rightarrow> SyncResult \<times> 's" where
  "syncCityData e upsert c st =
     (case city_source e c of
        None \<Rightarrow>
          (\<lparr>city = c, success = False, recordCount = 0,
            error = Some (str ''Unknown city: '' @ c)\<rparr>, st)
      | Some (fetchResult, parse) \<Rightarrow>
          if \<not> FetchResult.success fetchResult \<or> \<not> truthy (FetchResult.data fetchResult)
          then (\<lparr>city = c, success = False, recordCount = 0,
                 error = Some (or_default (FetchResult.error fetchResult)
                                 (str ''Failed to fetch data''))\<rparr>, st)
          else
            (let rawData = parse (the (FetchResult.data fetchResult));
                 normalizedData = normalizeData rawData (Some c);
                 (totalRecords, st') = upsert_batches upsert normalizedData 0 0 st
             in (\<lparr>city = c, success = True, recordCount = totalRecords, error = None\<rparr>, st')))"

section \<open>The sync orchestrator (the cron route, GET)\<close>

text \<open>
  The tables the route writes besides the land records. Timestamp columns
  (\<open>completed_at\<close>, \<open>last_synced_at\<close>) and the \<open>syncedAt\<close> of the response are not
  modelled. A store call answers with an error object and does not throw.
\<close>

record DataSource =
  city :: jsstring
  record_count :: nat

record SyncLog =
  id' :: jsstring
  source_city :: jsstring
  records_added :: nat
  status :: jsstring
  error_message :: "jsstring option"

record 's Store =
  sync_logs :: "SyncLog list"
  data_sources :: "DataSource list"
  unclaimed_lands :: 's

definition update_log :: "jsstring \<Rightarrow> (SyncLog \<Rightarrow> SyncLog) \<Rightarrow> 's Store \<Rightarrow> 's Store" where
  "update_log logId f db =
     db\<lparr>sync_logs := map (\<lambda>l. if id' l = logId then f l else l) (sync_logs db)\<rparr>"

definition update_source :: "jsstring \<Rightarrow> (DataSource \<Rightarrow> DataSource) \<Rightarrow> 's Store \<Rightarrow> 's Store" where
  "update_source c f db =
     db\<lparr>data_sources := map (\<lambda>d. if DataSource.city d = c then f d else d) (data_sources db)\<rparr>"

text \<open>
  The body of \<open>for (const city of cities)\<close>, run over the cities in order.
  \<open>sync\<close> is the awaited \<open>syncCityData(city)\<close> inside the \<open>try\<close>: it returns a result
  (\<open>Inr\<close>) or throws (\<open>Inl\<close>, with the message the \<open>catch\<close> reads), and in both cases
  leaves the land table in some state. \<open>uuid k\<close> is what the \<open>k\<close>-th call of
  \<open>crypto.randomUUID()\<close> returns.
\<close>

fun sync_cities ::
  "(nat \<Rightarrow> jsstring) \<Rightarrow> (jsstring \<Rightarrow> 's \<Rightarrow> (jsstring + SyncResult) \<times> 's) \<Rightarrow> jsstring list \<Rightarrow>
   nat \<Rightarrow> SyncResult list \<Rightarrow> 's Store \<Rightarrow> SyncResult list \<times> 's Store" where
  "sync_cities uuid sync [] k results db = (results, db)"
| "sync_cities uuid sync (c # cities) k results db =
     (let logId = uuid k;
          db1 = db\<lparr>sync_logs := sync_logs db @
                  [\<lparr>id' = logId, source_city = c, records_added = 0,
                    status = str ''running'', error_message = None\<rparr>]\<rparr>;
          (outcome, lands) = sync c (unclaimed_lands db1);
          db2 = db1\<lparr>unclaimed_lands := lands\<rparr>
      in case outcome of
           Inr result \<Rightarrow>
             (let db3 = update_log logId
                          (\<lambda>l. l\<lparr>records_added := SyncResult.recordCount result,
                                 status := (if SyncResult.success result then str ''completed''
                                            else str ''failed''),
                                 error_message := or_else (SyncResult.error result) None\<rparr>) db2;
                  db4 = (if SyncResult.success result
                         then update_source c
                                (\<lambda>d. d\<lparr>record_count := SyncResult.recordCount result\<rparr>) db3
                         else db3)
              in sync_cities uuid sync cities (k + 1) (results @ [result]) db4)
         | Inl errorMessage \<Rightarrow>
             (let failed = \<lparr>SyncResult.city = c, SyncResult.success = False,
                            SyncResult.recordCount = 0, SyncResult.error = Some errorMessage\<rparr>;
                  db3 = update_log logId
                          (\<lambda>l. l\<lparr>status := str ''failed'',
                                 error_message := Some errorMessage\<rparr>) db2
              in sync_cities uuid sync cities (k + 1) (results @ [failed]) db3))"

text \<open>The awaited \<open>syncCityData(city)\<close> of the cron route: it returns and does not throw.\<close>

definition cron_sync :: "'j env \<Rightarrow> 's upsert \<Rightarrow> jsstring \<Rightarrow> 's \<Rightarrow> (jsstring + SyncResult) \<times> 's" where
  "cron_sync e upsert c st = (case syncCityData e upsert c st of (result, st') \<Rightarrow> (Inr result, st'))"

datatype route_response =
    ErrorJson jsstring nat
  | SyncJson bool "SyncResult list"

definition cron_cities :: "jsstring list" where
  "cron_cities = [Taipei_City, Chiayi_City, Chiayi_County, Changhua_County]"

definition run_sync ::
  "(nat \<Rightarrow> jsstring) \<Rightarrow> (jsstring \<Rightarrow> 's \<Rightarrow> (jsstring + SyncResult) \<times> 's) \<Rightarrow> jsstring list \<Rightarrow>
   's Store \<Rightarrow> route_response \<times> 's Store" where
  "run_sync uuid sync cities db =
     (let (results, db') = sync_cities uuid sync cities 0 [] db;
          allSuccess = list_all SyncResult.success results
      in (SyncJson allSuccess results, db'))"

definition GET ::
  "'j env \<Rightarrow> 's upsert \<Rightarrow> (nat \<Rightarrow> jsstring) \<Rightarrow> jsstring option \<Rightarrow> jsstring option \<Rightarrow>
   jsstring option \<Rightarrow> 's Store \<Rightarrow> route_response \<times> 's Store" where
  "GET e upsert uuid authHeader cronSecret nodeEnv db =
     (if truthy cronSecret \<and> authHeader \<noteq> Some (str ''Bearer '' @ the cronSecret)
        then (ErrorJson (str ''Unauthorized'') 401, db)
      else if \<not> truthy cronSecret \<and> nodeEnv = Some (str ''production'')
        then (ErrorJson (str ''Server misconfiguration: CRON_SECRET not set'') 500, db)
      else run_sync uuid (cron_sync e upsert) cron_cities db)"

section \<open>The land table\<close>

text \<open>
  The conflict key of the upsert, \<open>onConflict: 'source_city,district,land_number'\<close>,
  which the migration declares \<open>UNIQUE\<close>.
\<close>

definition conflict_key :: "DbRecord \<Rightarrow> jsstring property \<times> jsstring \<times> jsstring" where
  "conflict_key r = (DbRecord.source_city r, DbRecord.district r, land_number r)"

text \<open>
  Modelled from the spec: the store (a PostgreSQL table behind Supabase) is not part of
  the repository. The table is the list of its rows. Upserting one row updates the
  stored row of its key or, when there is none, adds the row ("upsert on conflict must
  update rather than duplicate").
\<close>

definition upsert_row :: "DbRecord list \<Rightarrow> DbRecord \<Rightarrow> DbRecord list" where
  "upsert_row table r =
     (if conflict_key r \<in> set (map conflict_key table)
      then map (\<lambda>old. if conflict_key old = conflict_key r then r else old) table
      else table @ [r])"

text \<open>
  Modelled from the spec: the store's upsert of a batch, one statement of the store. It
  is refused as a whole, leaving the table as it was, when the store rejects the batch
  (\<open>rejects\<close>: any check of the batch alone, such as a constraint on its values, for
  instance on a \<open>source_city\<close> that is not a string) or when
  two rows of the batch have the same key (an \<open>ON CONFLICT DO UPDATE\<close> cannot touch a
  row twice); otherwise every row of the batch is upserted and the rows written are
  returned.
\<close>

definition table_upsert :: "(DbRecord list \<Rightarrow> bool) \<Rightarrow> (DbRecord list) upsert" where
  "table_upsert rejects table batch =
     (if rejects batch then (UpsertError (str ''rejected''), table)
      else if \<not> distinct (map conflict_key batch)
        then (UpsertError (str ''ON CONFLICT DO UPDATE command cannot affect row a second time''),
              table)
      else (UpsertData (Some batch), foldl upsert_row table batch))"

section \<open>Notions used to state the properties\<close>

text \<open>
  A parser's record keeps the row it was made from in \<open>rawData\<close>; the record comes
  from a row without a land number (column U+5730 U+865F), or without a subsection
  (column U+5C0F U+6BB5), when that cell is absent or empty.
\<close>

definition no_land_number :: "RawLandData \<Rightarrow> bool" where
  "no_land_number d =
     (case RawLandData.rawData d of None \<Rightarrow> False | Some r \<Rightarrow> \<not> truthy (col r k_land_number))"

definition no_subsection :: "RawLandData \<Rightarrow> bool" where
  "no_subsection d =
     (case RawLandData.rawData d of None \<Rightarrow> False | Some r \<Rightarrow> \<not> truthy (col r k_subsection))"

text \<open>
  The record at position \<open>k\<close> of a parser's output was made from the row \<open>r\<close>, carries
  the row's land number and has no owner name, before and after normalization.
\<close>

definition kept_without_owner :: "RawLandData list \<Rightarrow> jsstring option \<Rightarrow> nat \<Rightarrow> row \<Rightarrow> bool" where
  "kept_without_owner out url k r \<longleftrightarrow>
     k < length out \<and>
     RawLandData.rawData (out ! k) = Some r \<and>
     RawLandData.landNumber (out ! k) = the (col r k_land_number) \<and>
     RawLandData.ownerName (out ! k) = None \<and>
     NormalizedLand.landNumber (normalizeData out url ! k) = the (col r k_land_number) \<and>
     NormalizedLand.ownerName (normalizeData out url ! k) = None"

text \<open>A record leaves the normalizer without any area.\<close>

definition normalized_without_area :: "jsstring option \<Rightarrow> RawLandData \<Rightarrow> bool" where
  "normalized_without_area url d \<longleftrightarrow>
     NormalizedLand.areaM2 (normalizeRecord url d) = None \<and>
     NormalizedLand.areaPing (normalizeRecord url d) = None"

text \<open>
  The batches of a city's sync, as the spec describes them: the records cut into
  consecutive batches of a fixed size, each submitted to the store in turn on the state
  the previous one left, whatever the previous answers were.
\<close>

function chunks :: "nat \<Rightarrow> 'a list \<Rightarrow> 'a list list" where
  "chunks n xs = (if n = 0 \<or> xs = [] then [] else take n xs # chunks n (drop n xs))"
  by pat_completeness auto
termination
  by (relation "measure (\<lambda>(n, xs). length xs)") auto

declare chunks.simps [simp del]

fun batch_results :: "'s upsert \<Rightarrow> 's \<Rightarrow> DbRecord list list \<Rightarrow> upsert_result list \<times> 's" where
  "batch_results upsert st [] = ([], st)"
| "batch_results upsert st (b # bs) =
     (case upsert st b of (res, st') \<Rightarrow>
        (case batch_results upsert st' bs of (rs, st'') \<Rightarrow> (res # rs, st'')))"

text \<open>
  The per-city results of a run, as the spec describes them: every city of the list is
  synced in turn, on the land table the cities before it left, and reported: with the
  result of its sync, or as failed with the message of what its sync threw.
\<close>

definition city_outcome :: "jsstring \<Rightarrow> jsstring + SyncResult \<Rightarrow> SyncResult" where
  "city_outcome c outcome =
     (case outcome of
        Inr result \<Rightarrow> result
      | Inl errorMessage \<Rightarrow>
          \<lparr>SyncResult.city = c, SyncResult.success = False, SyncResult.recordCount = 0,
           SyncResult.error = Some errorMessage\<rparr>)"

fun lands_after :: "(jsstring \<Rightarrow> 's \<Rightarrow> (jsstring + SyncResult) \<times> 's) \<Rightarrow> jsstring list \<Rightarrow> 's \<Rightarrow> 's" where
  "lands_after sync [] st = st"
| "lands_after sync (c # cs) st = lands_after sync cs (snd (sync c st))"

fun city_results ::
  "(jsstring \<Rightarrow> 's \<Rightarrow> (jsstring + SyncResult) \<times> 's) \<Rightarrow> jsstring list \<Rightarrow> 's \<Rightarrow> SyncResult list" where
  "city_results sync [] st = []"
| "city_results sync (c # cs) st =
     city_outcome c (fst (sync c st)) # city_results sync cs (snd (sync c st))"

text \<open>
  The keys stored in the land table, and the batches the table accepts: those it does
  not reject and whose rows have pairwise different keys.
\<close>

definition stored_keys :: "DbRecord list \<Rightarrow> (jsstring property \<times> jsstring \<times> jsstring) set" where
  "stored_keys table = set (map conflict_key table)"

definition accepted :: "(DbRecord list \<Rightarrow> bool) \<Rightarrow> DbRecord list \<Rightarrow> bool" where
  "accepted rejects batch \<longleftrightarrow> \<not> rejects batch \<and> distinct (map conflict_key batch)"

section \<open>Example inputs\<close>

text \<open>A \<open>parseFloat\<close> that reads the two numerals the examples use.\<close>

definition example_parseFloat :: "jsstring \<Rightarrow> number option" where
  "example_parseFloat s =
     (if s = str ''150.5'' then Some 150.5 else if s = str ''0'' then Some 0 else None)"

text \<open>Two different Chiayi rows without a land number and with the same subsection.\<close>

definition chiayi_rows_same_subsection :: "row list" where
  "chiayi_rows_same_subsection =
     [ [(k_name, str ''A''), (k_subsection, str ''1'')],
      [(k_name, str ''B''), (k_subsection, str ''1'')] ]"

text \<open>Two rows that name an owner (in the owner columns of all three layouts) and no land.\<close>

definition two_owner_rows :: "row list" where
  "two_owner_rows =
     [ [(k_decedent_name, str ''A''), (k_name, str ''A'')],
      [(k_decedent_name, str ''B''), (k_name, str ''B'')] ]"

text \<open>Rows of the Taipei layout: a footer row, two rows without a land number, the row of
  the spec's end-to-end example without its owner, and a row of area zero.\<close>

definition footer_row :: row where
  "footer_row = [(k_decedent_name, []), (k_land_number, []), (k_area, str ''total'')]"

definition owner_only_row :: "string \<Rightarrow> row" where
  "owner_only_row name = [(k_decedent_name, str name), (k_land_number, [])]"

definition land_only_row :: row where
  "land_only_row = [(k_decedent_name, []), (k_land_number, str ''123-4''), (k_area, str ''150.5'')]"

definition zero_area_row :: row where
  "zero_area_row = [(k_decedent_name, str ''W''), (k_land_number, str ''7''), (k_area, str ''0'')]"

text \<open>A district of the coordinate table (U+5927 U+5B89 U+5340, in Taipei).\<close>

abbreviation Daan_District :: jsstring where
  "Daan_District \<equiv> [0x5927, 0x5B89, 0x5340]"

text \<open>A raw record of area zero that brings a ping value of its own.\<close>

definition zero_area_with_ping :: RawLandData where
  "zero_area_with_ping =
     \<lparr> RawLandData.sourceCity = Taipei_City, RawLandData.district = unknown_district,
       RawLandData.section' = None, RawLandData.landNumber = str ''1'',
       RawLandData.ownerName = None, RawLandData.areaM2 = Some 0,
       RawLandData.areaPing = Some 5, RawLandData.status = None,
       RawLandData.rawData = None \<rparr>"

text \<open>
  Three upstreams for the Taipei listing: one whose first page is empty, one that
  answers every request with a full page of 1000 records, and one with two pages of
  records and nothing after them.
\<close>

definition example_env :: "(nat \<Rightarrow> nat \<Rightarrow> nat list response) \<Rightarrow> nat env" where
  "example_env listing =
     \<lparr> parseFloat = example_parseFloat,
       papaParse = (\<lambda>skipEmptyLines csv. []),
       papaUnparse = (\<lambda>records. str ''csv''),
       taipeiApi = (\<lambda>datasetId. listing),
       dataGovMeta = (\<lambda>datasetId. NotOk 404),
       download = (\<lambda>url. NotOk 404) \<rparr>"

definition empty_listing :: "nat \<Rightarrow> nat \<Rightarrow> nat list response" where
  "empty_listing limit offset = Ok []"

definition endless_listing :: "nat \<Rightarrow> nat \<Rightarrow> nat list response" where
  "endless_listing limit offset = Ok (replicate limit 0)"

definition two_page_listing :: "nat \<Rightarrow> nat \<Rightarrow> nat list response" where
  "two_page_listing limit offset =
     (if offset = 0 then Ok [1, 2, 3] else if offset = limit then Ok [4, 5] else Ok [])"

text \<open>
  A store that refuses the first batch it is given and writes every later one; its state
  is the number of batches it has been given.
\<close>

definition flaky_upsert :: "nat upsert" where
  "flaky_upsert calls batch =
     (if calls = 0 then (UpsertError (str ''connection lost''), Suc calls)
      else (UpsertData (Some batch), Suc calls))"

definition example_land :: NormalizedLand where
  "example_land =
     \<lparr> sourceCity = Own Taipei_City, district = Daan_District, section' = None,
       landNumber = str ''123-4'', ownerName = None, areaM2 = Some 150.5,
       areaPing = Some (fl 45.53), status = under_management,
       coordinates = Some (Own \<lparr>lat = fl 25.0268, lng = fl 121.5435\<rparr>), rawData = None,
       sourceUrl = Some Taipei_City \<rparr>"

text \<open>
  A world in which the Taipei listing has two pages, the metadata request of data.gov.tw
  fails for every dataset but Changhua's (28529), and the parsed CSV texts have one row
  each.
\<close>

definition partial_failure_env :: "nat env" where
  "partial_failure_env =
     \<lparr> parseFloat = example_parseFloat,
       papaParse = (\<lambda>skipEmptyLines csv.
          if csv = str ''taipei.csv'' then [land_only_row]
          else if csv = str ''changhua.csv'' then [owner_only_row ''B''] else []),
       papaUnparse = (\<lambda>records. str ''taipei.csv''),
       taipeiApi = (\<lambda>datasetId. two_page_listing),
       dataGovMeta = (\<lambda>datasetId.
          if datasetId = str ''28529''
          then Ok (Some [\<lparr>format = Some (str ''CSV''), resourceFormat = None,
                           resourceDownloadUrl = Some (str ''https://example.org/c.csv'')\<rparr>])
          else NotOk 500),
       download = (\<lambda>url. Ok (str ''changhua.csv'')) \<rparr>"

definition accept_all :: "DbRecord list \<Rightarrow> bool" where
  "accept_all batch = False"

definition empty_store :: "(DbRecord list) Store" where
  "empty_store = \<lparr>sync_logs = [], data_sources = [], unclaimed_lands = []\<rparr>"

definition example_uuid :: "nat \<Rightarrow> jsstring" where
  "example_uuid k = str ''log-'' @ decimal k"

section \<open>Unit conversion\<close>

lemma round_even_error: "\<bar>of_int (round_even y) - y\<bar> \<le> 1 / 2"
proof -
  have "of_int \<lfloor>y\<rfloor> \<le> y" "y < of_int \<lfloor>y\<rfloor> + 1" by linarith+
  then show ?thesis
    by (auto simp: round_even_def Let_def)
qed

lemma expo_le:
  assumes "x \<noteq> 0"
  shows "2 powi (expo x) \<le> \<bar>x\<bar>"
proof -
  obtain p q where pq: "quotient_of \<bar>x\<bar> = (p, q)" by (cases "quotient_of \<bar>x\<bar>")
  then have q: "0 < q" and x: "\<bar>x\<bar> = of_int p / of_int q"
    by (simp_all add: quotient_of_denom_pos quotient_of_div)
  have "0 < \<bar>x\<bar>" using assms by simp
  then have "0 < (of_int p :: rat) / of_int q" using x by simp
  then have p: "0 < p" using q by (simp add: zero_less_divide_iff)
  define k where "k = bitlen p - bitlen q"
  show ?thesis
  proof (cases "2 powi k \<le> \<bar>x\<bar>")
    case True
    then show ?thesis by (simp add: expo_def pq k_def Let_def)
  next
    case False
    then have e: "expo x = k - 1" by (simp add: expo_def pq k_def Let_def)
    have bp: "1 \<le> bitlen p" and bq: "1 \<le> bitlen q"
      using p q by (simp_all add: bitlen_alt_def)
    have lo: "(2::rat) ^ nat (bitlen p - 1) \<le> of_int p"
      using bitlen_bounds [OF p] by (metis of_int_le_iff of_int_numeral of_int_power)
    have hi: "of_int q \<le> (2::rat) ^ nat (bitlen q)"
      using bitlen_bounds [OF q] by (metis less_imp_le of_int_le_iff of_int_numeral of_int_power)
    have ke: "k - 1 = (bitlen p - 1) - bitlen q"
      by (simp add: k_def)
    have "(2::rat) powi (k - 1) = 2 powi (bitlen p - 1) / 2 powi (bitlen q)"
      unfolding ke by (rule power_int_diff) simp
    also have "\<dots> = 2 ^ nat (bitlen p - 1) / 2 ^ nat (bitlen q)"
      using bp bq by (simp add: power_int_def)
    also have "\<dots> \<le> of_int p / of_int q"
      using lo hi q p by (intro frac_le) simp_all
    finally show ?thesis using e x by simp
  qed
qed

lemma fl_error: "\<bar>fl x - x\<bar> \<le> \<bar>x\<bar> / 2 ^ 53 + 2 powi (- 1075)"
proof (cases "x = 0")
  case True
  then show ?thesis by (simp add: fl_def)
next
  case False
  define e where "e = max (expo x) (- 1022)"
  define ulp :: rat where "ulp = 2 powi (e - 52)"
  have ulp: "0 < ulp" by (simp add: ulp_def)
  have "fl x - x = (of_int (round_even (x / ulp)) - x / ulp) * ulp"
    using False ulp by (simp add: fl_def e_def ulp_def Let_def left_diff_distrib)
  then have "\<bar>fl x - x\<bar> = \<bar>of_int (round_even (x / ulp)) - x / ulp\<bar> * ulp"
    using ulp by (simp add: abs_mult)
  also have "\<dots> \<le> (1 / 2) * ulp"
    using ulp by (intro mult_right_mono round_even_error) simp
  also have "\<dots> = 2 powi (e - 53)"
    by (simp add: ulp_def power_int_diff)
  also have "\<dots> \<le> \<bar>x\<bar> / 2 ^ 53 + 2 powi (- 1075)"
  proof (cases "expo x \<le> - 1022")
    case True
    then have "e = - 1022" by (simp add: e_def)
    then show ?thesis by simp
  next
    case False
    then have "e = expo x" by (simp add: e_def)
    then have "(2::rat) powi (e - 53) = 2 powi (expo x) / 2 ^ 53"
      by (simp add: power_int_diff)
    also have "\<dots> \<le> \<bar>x\<bar> / 2 ^ 53"
      using expo_le [OF \<open>x \<noteq> 0\<close>] by (simp add: divide_right_mono)
    finally show ?thesis by (simp add: add_increasing2)
  qed
  finally show ?thesis .
qed


lemma tiny: "(2::rat) powi (- 1075) \<le> 1 / 10 ^ 20"
  by (simp add: power_int_minus_divide)

lemma toFixed2_error: "\<bar>toFixed2 x - x\<bar> \<le> 1 / 200"
proof (cases "\<bar>x\<bar> \<ge> 10 ^ 21")
  case True
  then show ?thesis by (simp add: toFixed2_def)
next
  case False
  define n where "n = \<lfloor>\<bar>x\<bar> * 100 + 1 / 2\<rfloor>"
  have lo: "of_int n \<le> \<bar>x\<bar> * 100 + 1 / 2" and hi: "\<bar>x\<bar> * 100 + 1 / 2 < of_int n + 1"
    unfolding n_def by linarith+
  have near: "\<bar>of_int n / 100 - \<bar>x\<bar>\<bar> \<le> 1 / 200"
    using lo hi by linarith
  have "x = sgn x * \<bar>x\<bar>"
    by (simp add: sgn_mult_abs)
  then have "toFixed2 x - x = sgn x * (of_int n / 100) - sgn x * \<bar>x\<bar>"
    using False by (simp add: toFixed2_def n_def)
  then have "toFixed2 x - x = sgn x * (of_int n / 100 - \<bar>x\<bar>)"
    by (simp add: right_diff_distrib)
  then have "\<bar>toFixed2 x - x\<bar> = \<bar>sgn x\<bar> * \<bar>of_int n / 100 - \<bar>x\<bar>\<bar>"
    by (simp add: abs_mult)
  also have "\<dots> \<le> 1 * \<bar>of_int n / 100 - \<bar>x\<bar>\<bar>"
    by (rule mult_right_mono) (simp_all add: abs_sgn_eq)
  finally show ?thesis using near by simp
qed

text \<open>
  C4, as the code has it. For an area of at most 10^11 square metres in absolute value,
  converting it to ping with \<open>m2ToPing\<close> (divide by 3.30579, round to two decimals) and
  multiplying the result by 3.30579, all in double arithmetic, reproduces the area
  within 0.0166 square metres: half a hundredth of a ping is 0.01652895 square metres,
  and the roundings of the three double operations add less than the rest.
\<close>

theorem m2ToPing_roundtrip_tolerance:
  assumes "\<bar>a\<bar> \<le> 10 ^ 11"
  shows "\<bar>fl (m2ToPing a * fl 3.30579) - a\<bar> \<le> 0.0166"
proof -
  define c :: rat where "c = 1860994326520639 / 562949953421312"
  define r where "r = a / c"
  define q where "q = fl r"
  define t where "t = toFixed2 q"
  define p where "p = fl t"
  define s where "s = p * c"
  define b where "b = fl s"
  define eta :: rat where "eta = 2 powi (- 1075)"
  have eta: "0 \<le> eta" "eta \<le> 1 / 100000000000000000000"
    using tiny by (simp_all add: eta_def)
  have a: "\<bar>a\<bar> \<le> 100000000000"
    using assms by simp
  have r: "r = a * (562949953421312 / 1860994326520639)"
    by (simp add: r_def c_def)
  have s: "s = p * (1860994326520639 / 562949953421312)"
    by (simp add: s_def c_def)
  have f1: "\<bar>q - r\<bar> \<le> \<bar>r\<bar> / 9007199254740992 + eta"
    using fl_error [of r] by (simp add: q_def eta_def)
  have f2: "\<bar>t - q\<bar> \<le> 1 / 200"
    unfolding t_def by (rule toFixed2_error)
  have f3: "\<bar>p - t\<bar> \<le> \<bar>t\<bar> / 9007199254740992 + eta"
    using fl_error [of t] by (simp add: p_def eta_def)
  have f4: "\<bar>b - s\<bar> \<le> \<bar>s\<bar> / 9007199254740992 + eta"
    using fl_error [of s] by (simp add: b_def eta_def)
  have r1: "\<bar>r\<bar> \<le> 31000000000"
    using a unfolding r by linarith
  have q2: "\<bar>q - r\<bar> \<le> 4 / 1000000"
    using f1 r1 eta by linarith
  have q3: "\<bar>q\<bar> \<le> 32000000000"
    using r1 q2 by linarith
  have t1: "\<bar>t\<bar> \<le> 33000000000"
    using q3 f2 by linarith
  have p1: "\<bar>p - t\<bar> \<le> 4 / 1000000"
    using f3 t1 eta by linarith
  have p2: "\<bar>p\<bar> \<le> 34000000000"
    using p1 t1 by linarith
  have s1: "\<bar>s\<bar> \<le> 120000000000"
    using p2 unfolding s by linarith
  have b2: "\<bar>b - s\<bar> \<le> 14 / 1000000"
    using f4 s1 eta by linarith
  have near: "\<bar>p - r\<bar> \<le> 1 / 200 + 8 / 1000000"
    using q2 f2 p1 by linarith
  have cpos: "0 < c"
    by (simp add: c_def)
  have "a = r * c"
    using cpos by (simp add: r_def)
  then have "s - a = (p - r) * c"
    by (simp add: s_def left_diff_distrib)
  then have "\<bar>s - a\<bar> = \<bar>p - r\<bar> * c"
    using cpos by (simp add: abs_mult)
  also have "\<dots> \<le> (1 / 200 + 8 / 1000000) * c"
    using near cpos by (intro mult_right_mono) simp_all
  also have "\<dots> \<le> 16556 / 1000000"
    by (simp add: c_def)
  finally have trip: "\<bar>s - a\<bar> \<le> 16556 / 1000000" .
  have "\<bar>b - a\<bar> \<le> 166 / 10000"
    using trip b2 by linarith
  moreover have "fl 3.30579 = c"
    unfolding c_def by code_simp
  ultimately show ?thesis
    by (simp add: m2ToPing_def b_def s_def p_def t_def q_def r_def)
qed

theorem m2ToPing_roundtrip_tolerance_witness:
  "\<bar>150.5 :: rat\<bar> \<le> 10 ^ 11 \<and> \<bar>fl (m2ToPing 150.5 * fl 3.30579) - 150.5\<bar> \<le> 0.0166"
proof -
  have small: "\<bar>150.5 :: rat\<bar> \<le> 10 ^ 11" by simp
  show ?thesis
    using m2ToPing_roundtrip_tolerance [OF small] small by simp
qed

text \<open>
  C4, as the spec states it, fails at the area 150.5 of the spec's own end-to-end example:
  150.5 / 3.30579 rounds to 45.53 ping, and 45.53 * 3.30579 is 150.5126..., more than
  0.01 away from 150.5. It also fails for large areas at any such tolerance: at
  8450589277275423 the doubles are integers and the round trip returns the next one.
\<close>

theorem m2ToPing_roundtrip_counterexample:
  "m2ToPing 150.5 = fl 45.53 \<and>
   \<not> \<bar>fl (m2ToPing 150.5 * fl 3.30579) - 150.5\<bar> \<le> 0.01 \<and>
   fl (m2ToPing 8450589277275423 * fl 3.30579) = 8450589277275424 \<and>
   \<not> \<bar>fl (m2ToPing 8450589277275423 * fl 3.30579) - 8450589277275423\<bar> \<le> 0.0166"
  by code_simp

section \<open>Placeholder land numbers\<close>

lemma undecimal_snoc: "undecimal (s @ [d]) = 10 * undecimal s + (d - 48)"
  by (simp add: undecimal_def)

lemma undecimal_decimal: "undecimal (decimal n) = n"
proof (induction n rule: decimal.induct)
  case (1 n)
  show ?case
  proof (cases "n < 10")
    case True
    then show ?thesis by (simp add: decimal.simps [of n] undecimal_def)
  next
    case False
    then have "undecimal (decimal n) = 10 * undecimal (decimal (n div 10)) + n mod 10"
      by (simp add: decimal.simps [of n] undecimal_snoc)
    with False 1 show ?thesis by simp
  qed
qed

lemma decimal_inj: "decimal m = decimal n \<Longrightarrow> m = n"
  by (metis undecimal_decimal)

lemma indexed_values_distinct:
  assumes val: "\<And>i r. P (mk r i) \<Longrightarrow> f (mk r i) = g i"
    and inj: "\<And>i j. g i = g j \<Longrightarrow> i = j"
  shows "set (map f (filter P (map (\<lambda>(i, r). mk r i) (enumerate n xs)))) \<subseteq> g ` {n..<n + length xs}
       \<and> distinct (map f (filter P (map (\<lambda>(i, r). mk r i) (enumerate n xs))))"
proof (induction xs arbitrary: n)
  case Nil
  show ?case by simp
next
  case (Cons x xs)
  define rest where "rest = map f (filter P (map (\<lambda>(i, r). mk r i) (enumerate (Suc n) xs)))"
  have sub: "set rest \<subseteq> g ` {Suc n..<Suc n + length xs}" and dis: "distinct rest"
    using Cons.IH [of "Suc n"] by (simp_all add: rest_def)
  have sub': "set rest \<subseteq> g ` {n..<n + length (x # xs)}"
  proof
    fix v assume "v \<in> set rest"
    with sub have "v \<in> g ` {Suc n..<Suc n + length xs}" by blast
    then obtain j where "j \<in> {Suc n..<Suc n + length xs}" "v = g j" by blast
    then have "Suc n \<le> j" "j < Suc n + length xs" "v = g j" by simp_all
    then show "v \<in> g ` {n..<n + length (x # xs)}" by (intro image_eqI [of _ _ j]) simp_all
  qed
  have fresh: "g n \<notin> set rest"
  proof
    assume "g n \<in> set rest"
    with sub have "g n \<in> g ` {Suc n..<Suc n + length xs}" by blast
    then obtain j where "j \<in> {Suc n..<Suc n + length xs}" "g n = g j" by blast
    then have "Suc n \<le> j" "g n = g j" by simp_all
    with inj [of n j] show False by simp
  qed
  have here: "g n \<in> g ` {n..<n + length (x # xs)}"
    by (intro image_eqI [of _ _ n]) simp_all
  have unfold: "map f (filter P (map (\<lambda>(i, r). mk r i) (enumerate n (x # xs))))
                = (if P (mk x n) then f (mk x n) # rest else rest)"
    by (simp add: rest_def)
  show ?case
  proof (cases "P (mk x n)")
    case True
    with val have "f (mk x n) = g n" by simp
    with True sub' dis fresh here show ?thesis unfolding unfold by simp
  next
    case False
    with sub' dis show ?thesis unfolding unfold by simp
  qed
qed

lemma parse_placeholders:
  assumes val: "\<And>i r. P (mk r i) \<Longrightarrow> RawLandData.landNumber (mk r i) = str ''unknown-'' @ decimal i"
  shows "(\<forall>i<length (filter keep rows).
            P (map (\<lambda>(i, r). mk r i) (enumerate 0 (filter keep rows)) ! i) \<longrightarrow>
            RawLandData.landNumber (map (\<lambda>(i, r). mk r i) (enumerate 0 (filter keep rows)) ! i)
              = str ''unknown-'' @ decimal i)
       \<and> distinct (map RawLandData.landNumber (filter P (map (\<lambda>(i, r). mk r i) (enumerate 0 (filter keep rows)))))"
proof -
  have "distinct (map RawLandData.landNumber (filter P (map (\<lambda>(i, r). mk r i) (enumerate 0 (filter keep rows)))))"
    using indexed_values_distinct [of P mk RawLandData.landNumber "\<lambda>i. str ''unknown-'' @ decimal i" 0 "filter keep rows"]
      val decimal_inj by simp
  moreover have "\<forall>i<length (filter keep rows).
            P (map (\<lambda>(i, r). mk r i) (enumerate 0 (filter keep rows)) ! i) \<longrightarrow>
            RawLandData.landNumber (map (\<lambda>(i, r). mk r i) (enumerate 0 (filter keep rows)) ! i)
              = str ''unknown-'' @ decimal i"
    using val by (simp add: nth_enumerate_eq)
  ultimately show ?thesis by simp
qed

lemma taipei_placeholder:
  "no_land_number (TaipeiParser_record pf r i) \<Longrightarrow>
   RawLandData.landNumber (TaipeiParser_record pf r i) = str ''unknown-'' @ decimal i"
  by (simp add: no_land_number_def TaipeiParser_record_def or_default_def)

lemma changhua_placeholder:
  "no_land_number (ChanghuaParser_record pf r i) \<Longrightarrow>
   RawLandData.landNumber (ChanghuaParser_record pf r i) = str ''unknown-'' @ decimal i"
  by (simp add: no_land_number_def ChanghuaParser_record_def or_default_def Let_def)

lemma chiayi_placeholder:
  "no_land_number (ChiayiParser_record c pf r i) \<and> no_subsection (ChiayiParser_record c pf r i) \<Longrightarrow>
   RawLandData.landNumber (ChiayiParser_record c pf r i) = str ''unknown-'' @ decimal i"
  by (simp add: no_land_number_def no_subsection_def ChiayiParser_record_def or_default_def Let_def)

text \<open>
  C5, as the code has it. In the output of the Taipei and of the Changhua parser, a record
  made from a row without a land number has the land number \<open>unknown-<index>\<close>, the index
  being the record's position in the output, and the land numbers of these records are
  pairwise distinct. In the output of the Chiayi parser the same holds of the records made
  from rows that have neither a land number nor a subsection.
\<close>

theorem placeholder_land_numbers_distinct:
  "(\<forall>i<length (TaipeiParser_parse pf rows).
      no_land_number (TaipeiParser_parse pf rows ! i) \<longrightarrow>
      RawLandData.landNumber (TaipeiParser_parse pf rows ! i) = str ''unknown-'' @ decimal i) \<and>
   distinct (map RawLandData.landNumber (filter no_land_number (TaipeiParser_parse pf rows))) \<and>
   (\<forall>i<length (ChanghuaParser_parse pf rows).
      no_land_number (ChanghuaParser_parse pf rows ! i) \<longrightarrow>
      RawLandData.landNumber (ChanghuaParser_parse pf rows ! i) = str ''unknown-'' @ decimal i) \<and>
   distinct (map RawLandData.landNumber (filter no_land_number (ChanghuaParser_parse pf rows))) \<and>
   (\<forall>i<length (ChiayiParser_parse isCounty pf rows).
      no_land_number (ChiayiParser_parse isCounty pf rows ! i) \<and>
      no_subsection (ChiayiParser_parse isCounty pf rows ! i) \<longrightarrow>
      RawLandData.landNumber (ChiayiParser_parse isCounty pf rows ! i) = str ''unknown-'' @ decimal i) \<and>
   distinct (map RawLandData.landNumber
      (filter (\<lambda>d. no_land_number d \<and> no_subsection d) (ChiayiParser_parse isCounty pf rows)))"
proof -
  note t = parse_placeholders [of no_land_number "TaipeiParser_record pf" TaipeiParser_keep rows,
      OF taipei_placeholder, folded TaipeiParser_parse_def]
  note h = parse_placeholders [of no_land_number "ChanghuaParser_record pf" ChanghuaParser_keep rows,
      OF changhua_placeholder, folded ChanghuaParser_parse_def]
  note c = parse_placeholders [of "\<lambda>d. no_land_number d \<and> no_subsection d"
      "ChiayiParser_record isCounty pf" ChiayiParser_keep rows,
      OF chiayi_placeholder, folded ChiayiParser_parse_def]
  have lt: "length (TaipeiParser_parse pf rows) = length (filter TaipeiParser_keep rows)"
    by (simp add: TaipeiParser_parse_def)
  have lh: "length (ChanghuaParser_parse pf rows) = length (filter ChanghuaParser_keep rows)"
    by (simp add: ChanghuaParser_parse_def)
  have lc: "length (ChiayiParser_parse isCounty pf rows) = length (filter ChiayiParser_keep rows)"
    by (simp add: ChiayiParser_parse_def)
  show ?thesis
    using t h c unfolding lt lh lc by blast
qed

theorem placeholder_land_numbers_distinct_witness:
  "1 < length (TaipeiParser_parse example_parseFloat two_owner_rows) \<and>
   no_land_number (TaipeiParser_parse example_parseFloat two_owner_rows ! 1) \<and>
   RawLandData.landNumber (TaipeiParser_parse example_parseFloat two_owner_rows ! 1) = str ''unknown-1'' \<and>
   1 < length (ChanghuaParser_parse example_parseFloat two_owner_rows) \<and>
   no_land_number (ChanghuaParser_parse example_parseFloat two_owner_rows ! 1) \<and>
   RawLandData.landNumber (ChanghuaParser_parse example_parseFloat two_owner_rows ! 1) = str ''unknown-1'' \<and>
   1 < length (ChiayiParser_parse False example_parseFloat two_owner_rows) \<and>
   no_land_number (ChiayiParser_parse False example_parseFloat two_owner_rows ! 1) \<and>
   no_subsection (ChiayiParser_parse False example_parseFloat two_owner_rows ! 1) \<and>
   RawLandData.landNumber (ChiayiParser_parse False example_parseFloat two_owner_rows ! 1) = str ''unknown-1''"
proof -
  have t: "1 < length (TaipeiParser_parse example_parseFloat two_owner_rows)"
    "no_land_number (TaipeiParser_parse example_parseFloat two_owner_rows ! 1)"
    by (simp_all add: two_owner_rows_def TaipeiParser_parse_def TaipeiParser_keep_def
        TaipeiParser_record_def col_def no_land_number_def enumerate_eq_zip)
  have h: "1 < length (ChanghuaParser_parse example_parseFloat two_owner_rows)"
    "no_land_number (ChanghuaParser_parse example_parseFloat two_owner_rows ! 1)"
    by (simp_all add: two_owner_rows_def ChanghuaParser_parse_def ChanghuaParser_keep_def
        ChanghuaParser_record_def col_def no_land_number_def enumerate_eq_zip Let_def)
  have c: "1 < length (ChiayiParser_parse False example_parseFloat two_owner_rows)"
    "no_land_number (ChiayiParser_parse False example_parseFloat two_owner_rows ! 1)"
    "no_subsection (ChiayiParser_parse False example_parseFloat two_owner_rows ! 1)"
    by (simp_all add: two_owner_rows_def ChiayiParser_parse_def ChiayiParser_keep_def
        ChiayiParser_record_def col_def no_land_number_def no_subsection_def enumerate_eq_zip
        Let_def)
  have one: "decimal 1 = str ''1''"
    by (simp add: decimal.simps)
  show ?thesis
    using placeholder_land_numbers_distinct [of example_parseFloat two_owner_rows False] t h c one
    by simp
qed

text \<open>
  C5, as the spec states it, fails for the Chiayi parser: a row without a land number takes
  its subsection as land number, so two different rows with the same subsection collide.
\<close>

theorem placeholder_collision_chiayi:
  "distinct chiayi_rows_same_subsection \<and>
   \<not> distinct (map RawLandData.landNumber
       (filter no_land_number (ChiayiParser_parse False example_parseFloat chiayi_rows_same_subsection)))"
  by (simp add: chiayi_rows_same_subsection_def ChiayiParser_parse_def ChiayiParser_keep_def
      ChiayiParser_record_def col_def or_default_def or_else_def no_land_number_def Let_def
      enumerate_eq_zip)


section \<open>Row filtering\<close>

lemma parse_drop_row:
  assumes "\<not> keep r"
  shows "map (\<lambda>(index, r). mk r index) (enumerate 0 (filter keep (xs @ r # ys)))
       = map (\<lambda>(index, r). mk r index) (enumerate 0 (filter keep (xs @ ys)))"
  using assms by simp

lemma parse_keep_row:
  assumes "keep r"
  shows "length (filter keep xs) < length (map (\<lambda>(index, r). mk r index) (enumerate 0 (filter keep (xs @ r # ys))))
     \<and> map (\<lambda>(index, r). mk r index) (enumerate 0 (filter keep (xs @ r # ys))) ! length (filter keep xs)
       = mk r (length (filter keep xs))"
  using assms by (simp add: nth_enumerate_eq nth_append)

lemma cleanOwnerName_absent: "\<not> truthy name \<Longrightarrow> cleanOwnerName name = None"
  by (simp add: cleanOwnerName_def)

lemma kept_without_ownerI:
  assumes "k < length out" "out ! k = d" "RawLandData.rawData d = Some r"
    "RawLandData.landNumber d = the (col r k_land_number)" "RawLandData.ownerName d = None"
  shows "kept_without_owner out url k r"
  using assms by (simp add: kept_without_owner_def normalizeData_def normalizeRecord_def Let_def or_else_def)

text \<open>
  C6. For each of the three parsers: a row with neither an owner-name cell nor a
  land-number cell is left out of the output (parsing with the row gives what parsing
  without it gives), and a row with a land number and no owner name is kept: the output
  has, at the position after the records of the rows before it, a record made from this
  row with the row's land number, whose owner name is undefined and is null after
  normalization.
\<close>

theorem row_filtering:
  "(\<not> truthy (col r k_decedent_name) \<and> \<not> truthy (col r k_land_number) \<longrightarrow>
      TaipeiParser_parse pf (xs @ r # ys) = TaipeiParser_parse pf (xs @ ys) \<and>
      ChanghuaParser_parse pf (xs @ r # ys) = ChanghuaParser_parse pf (xs @ ys)) \<and>
   (\<not> truthy (col r k_decedent) \<and> \<not> truthy (col r k_name) \<and> \<not> truthy (col r k_land_number) \<longrightarrow>
      ChiayiParser_parse isCounty pf (xs @ r # ys) = ChiayiParser_parse isCounty pf (xs @ ys)) \<and>
   (\<not> truthy (col r k_decedent_name) \<and> truthy (col r k_land_number) \<longrightarrow>
      kept_without_owner (TaipeiParser_parse pf (xs @ r # ys)) url
        (length (TaipeiParser_parse pf xs)) r \<and>
      kept_without_owner (ChanghuaParser_parse pf (xs @ r # ys)) url
        (length (ChanghuaParser_parse pf xs)) r) \<and>
   (\<not> truthy (col r k_decedent) \<and> \<not> truthy (col r k_name) \<and> truthy (col r k_land_number) \<longrightarrow>
      kept_without_owner (ChiayiParser_parse isCounty pf (xs @ r # ys)) url
        (length (ChiayiParser_parse isCounty pf xs)) r)"
proof (intro conjI impI)
  assume "\<not> truthy (col r k_decedent_name) \<and> \<not> truthy (col r k_land_number)"
  then have t: "\<not> TaipeiParser_keep r" and h: "\<not> ChanghuaParser_keep r"
    by (simp_all add: TaipeiParser_keep_def ChanghuaParser_keep_def)
  show "TaipeiParser_parse pf (xs @ r # ys) = TaipeiParser_parse pf (xs @ ys)"
    unfolding TaipeiParser_parse_def by (rule parse_drop_row [where keep = "TaipeiParser_keep", OF t])
  show "ChanghuaParser_parse pf (xs @ r # ys) = ChanghuaParser_parse pf (xs @ ys)"
    unfolding ChanghuaParser_parse_def by (rule parse_drop_row [where keep = "ChanghuaParser_keep", OF h])
next
  assume "\<not> truthy (col r k_decedent) \<and> \<not> truthy (col r k_name) \<and> \<not> truthy (col r k_land_number)"
  then have c: "\<not> ChiayiParser_keep r"
    by (simp add: ChiayiParser_keep_def)
  show "ChiayiParser_parse isCounty pf (xs @ r # ys) = ChiayiParser_parse isCounty pf (xs @ ys)"
    unfolding ChiayiParser_parse_def by (rule parse_drop_row [where keep = "ChiayiParser_keep", OF c])
next
  assume a: "\<not> truthy (col r k_decedent_name) \<and> truthy (col r k_land_number)"
  then have t: "TaipeiParser_keep r" and h: "ChanghuaParser_keep r"
    by (simp_all add: TaipeiParser_keep_def ChanghuaParser_keep_def)
  have lt: "length (TaipeiParser_parse pf xs) = length (filter TaipeiParser_keep xs)"
    by (simp add: TaipeiParser_parse_def)
  have lh: "length (ChanghuaParser_parse pf xs) = length (filter ChanghuaParser_keep xs)"
    by (simp add: ChanghuaParser_parse_def)
  show "kept_without_owner (TaipeiParser_parse pf (xs @ r # ys)) url (length (TaipeiParser_parse pf xs)) r"
    unfolding lt
  proof (rule kept_without_ownerI)
    show "length (filter TaipeiParser_keep xs) < length (TaipeiParser_parse pf (xs @ r # ys))"
      and "TaipeiParser_parse pf (xs @ r # ys) ! length (filter TaipeiParser_keep xs)
           = TaipeiParser_record pf r (length (filter TaipeiParser_keep xs))"
      using parse_keep_row [where keep = "TaipeiParser_keep" and mk = "TaipeiParser_record pf" and xs = xs and ys = ys, OF t]
      unfolding TaipeiParser_parse_def by simp_all
  qed (use a in \<open>simp_all add: TaipeiParser_record_def or_default_def cleanOwnerName_absent\<close>)
  show "kept_without_owner (ChanghuaParser_parse pf (xs @ r # ys)) url (length (ChanghuaParser_parse pf xs)) r"
    unfolding lh
  proof (rule kept_without_ownerI)
    show "length (filter ChanghuaParser_keep xs) < length (ChanghuaParser_parse pf (xs @ r # ys))"
      and "ChanghuaParser_parse pf (xs @ r # ys) ! length (filter ChanghuaParser_keep xs)
           = ChanghuaParser_record pf r (length (filter ChanghuaParser_keep xs))"
      using parse_keep_row [where keep = "ChanghuaParser_keep" and mk = "ChanghuaParser_record pf" and xs = xs and ys = ys, OF h]
      unfolding ChanghuaParser_parse_def by simp_all
  qed (use a in \<open>simp_all add: ChanghuaParser_record_def or_default_def cleanOwnerName_absent Let_def\<close>)
next
  assume a: "\<not> truthy (col r k_decedent) \<and> \<not> truthy (col r k_name) \<and> truthy (col r k_land_number)"
  then have c: "ChiayiParser_keep r"
    by (simp add: ChiayiParser_keep_def)
  have lc: "length (ChiayiParser_parse isCounty pf xs) = length (filter ChiayiParser_keep xs)"
    by (simp add: ChiayiParser_parse_def)
  show "kept_without_owner (ChiayiParser_parse isCounty pf (xs @ r # ys)) url
          (length (ChiayiParser_parse isCounty pf xs)) r"
    unfolding lc
  proof (rule kept_without_ownerI)
    show "length (filter ChiayiParser_keep xs) < length (ChiayiParser_parse isCounty pf (xs @ r # ys))"
      and "ChiayiParser_parse isCounty pf (xs @ r # ys) ! length (filter ChiayiParser_keep xs)
           = ChiayiParser_record isCounty pf r (length (filter ChiayiParser_keep xs))"
      using parse_keep_row [where keep = "ChiayiParser_keep" and mk = "ChiayiParser_record isCounty pf" and xs = xs and ys = ys, OF c]
      unfolding ChiayiParser_parse_def by simp_all
  qed (use a in \<open>simp_all add: ChiayiParser_record_def or_default_def or_else_def
        cleanOwnerName_absent Let_def\<close>)
qed


theorem row_filtering_witness:
  "\<not> truthy (col footer_row k_decedent_name) \<and> \<not> truthy (col footer_row k_decedent) \<and>
   \<not> truthy (col footer_row k_name) \<and> \<not> truthy (col footer_row k_land_number) \<and>
   TaipeiParser_parse example_parseFloat ([owner_only_row ''A''] @ footer_row # [zero_area_row])
     = TaipeiParser_parse example_parseFloat ([owner_only_row ''A''] @ [zero_area_row]) \<and>
   ChanghuaParser_parse example_parseFloat ([owner_only_row ''A''] @ footer_row # [zero_area_row])
     = ChanghuaParser_parse example_parseFloat ([owner_only_row ''A''] @ [zero_area_row]) \<and>
   ChiayiParser_parse False example_parseFloat ([owner_only_row ''A''] @ footer_row # [zero_area_row])
     = ChiayiParser_parse False example_parseFloat ([owner_only_row ''A''] @ [zero_area_row]) \<and>
   \<not> truthy (col land_only_row k_decedent_name) \<and> \<not> truthy (col land_only_row k_decedent) \<and>
   \<not> truthy (col land_only_row k_name) \<and> truthy (col land_only_row k_land_number) \<and>
   kept_without_owner
     (TaipeiParser_parse example_parseFloat ([owner_only_row ''A''] @ land_only_row # [zero_area_row]))
     None 1 land_only_row \<and>
   kept_without_owner
     (ChanghuaParser_parse example_parseFloat ([owner_only_row ''A''] @ land_only_row # [zero_area_row]))
     None 1 land_only_row \<and>
   kept_without_owner
     (ChiayiParser_parse False example_parseFloat ([owner_only_row ''A''] @ land_only_row # [zero_area_row]))
     None 0 land_only_row"
proof -
  have f: "\<not> truthy (col footer_row k_decedent_name)" "\<not> truthy (col footer_row k_decedent)"
    "\<not> truthy (col footer_row k_name)" "\<not> truthy (col footer_row k_land_number)"
    by (simp_all add: footer_row_def col_def)
  have l: "\<not> truthy (col land_only_row k_decedent_name)" "\<not> truthy (col land_only_row k_decedent)"
    "\<not> truthy (col land_only_row k_name)" "truthy (col land_only_row k_land_number)"
    by (simp_all add: land_only_row_def col_def)
  have n: "length (TaipeiParser_parse example_parseFloat [owner_only_row ''A'']) = 1"
    "length (ChanghuaParser_parse example_parseFloat [owner_only_row ''A'']) = 1"
    "length (ChiayiParser_parse False example_parseFloat [owner_only_row ''A'']) = 0"
    by (simp_all add: owner_only_row_def col_def TaipeiParser_parse_def TaipeiParser_keep_def
        ChanghuaParser_parse_def ChanghuaParser_keep_def ChiayiParser_parse_def ChiayiParser_keep_def)
  show ?thesis
    using row_filtering [of footer_row example_parseFloat "[owner_only_row ''A'']" "[zero_area_row]" False None]
      row_filtering [of land_only_row example_parseFloat "[owner_only_row ''A'']" "[zero_area_row]" False None]
      f l n
    by simp
qed

section \<open>Zero areas\<close>

text \<open>
  C10, as the code has it. A raw record whose areaM2 is 0 leaves the normalizer with
  areaM2 null, and with areaPing null provided the record does not carry a non-zero
  areaPing of its own. The record that any of the three parsers makes from a row whose
  area parses to 0 has no areaPing, so it leaves the normalizer with neither area.
\<close>

theorem zero_area_not_preserved:
  "(i < length raw \<and> RawLandData.areaM2 (raw ! i) = Some 0 \<longrightarrow>
      NormalizedLand.areaM2 (normalizeData raw url ! i) = None \<and>
      (\<not> truthy_num (RawLandData.areaPing (raw ! i)) \<longrightarrow>
         NormalizedLand.areaPing (normalizeData raw url ! i) = None)) \<and>
   (\<forall>p \<in> {TaipeiParser_record pf r k, ChanghuaParser_record pf r k,
           ChiayiParser_record isCounty pf r k}.
      RawLandData.areaM2 p = Some 0 \<longrightarrow>
      RawLandData.areaPing p = None \<and> normalized_without_area url p)"
  by (simp add: normalizeData_def normalizeRecord_def normalized_without_area_def
      TaipeiParser_record_def ChanghuaParser_record_def ChiayiParser_record_def Let_def)

theorem zero_area_not_preserved_witness:
  "RawLandData.areaM2 (TaipeiParser_record example_parseFloat zero_area_row 0) = Some 0 \<and>
   RawLandData.areaPing (TaipeiParser_record example_parseFloat zero_area_row 0) = None \<and>
   normalized_without_area None (TaipeiParser_record example_parseFloat zero_area_row 0) \<and>
   RawLandData.areaM2 (ChanghuaParser_record example_parseFloat zero_area_row 0) = Some 0 \<and>
   normalized_without_area None (ChanghuaParser_record example_parseFloat zero_area_row 0) \<and>
   RawLandData.areaM2 (ChiayiParser_record False example_parseFloat zero_area_row 0) = Some 0 \<and>
   normalized_without_area None (ChiayiParser_record False example_parseFloat zero_area_row 0) \<and>
   NormalizedLand.areaM2
     (normalizeData (TaipeiParser_parse example_parseFloat [zero_area_row]) None ! 0) = None \<and>
   NormalizedLand.areaPing
     (normalizeData (TaipeiParser_parse example_parseFloat [zero_area_row]) None ! 0) = None"
proof -
  have a: "RawLandData.areaM2 (TaipeiParser_record example_parseFloat zero_area_row 0) = Some 0"
    "RawLandData.areaM2 (ChanghuaParser_record example_parseFloat zero_area_row 0) = Some 0"
    "RawLandData.areaM2 (ChiayiParser_record False example_parseFloat zero_area_row 0) = Some 0"
    by (simp_all add: TaipeiParser_record_def ChanghuaParser_record_def ChiayiParser_record_def
        zero_area_row_def col_def parseArea_def remove_commas_def example_parseFloat_def
        or_else_def Let_def)
  have p: "TaipeiParser_parse example_parseFloat [zero_area_row]
           = [TaipeiParser_record example_parseFloat zero_area_row 0]"
    by (simp add: TaipeiParser_parse_def TaipeiParser_keep_def zero_area_row_def col_def)
  have b: "RawLandData.areaPing (TaipeiParser_record example_parseFloat zero_area_row 0) = None"
    using a(1) by (simp add: TaipeiParser_record_def)
  show ?thesis
    using zero_area_not_preserved [of 0 "TaipeiParser_parse example_parseFloat [zero_area_row]"
        None example_parseFloat zero_area_row 0 False] a b p
    by simp
qed

text \<open>
  C10, as the spec states it, fails for a raw record of area 0 that carries its own ping
  value: the normalizer passes the ping value on.
\<close>

theorem zero_area_ping_preserved:
  "RawLandData.areaM2 zero_area_with_ping = Some 0 \<and>
   NormalizedLand.areaM2 (normalizeData [zero_area_with_ping] None ! 0) = None \<and>
   NormalizedLand.areaPing (normalizeData [zero_area_with_ping] None ! 0) = Some 5"
  by (simp add: zero_area_with_ping_def normalizeData_def normalizeRecord_def Let_def)


section \<open>Coordinate resolution\<close>

lemma strip_known_prefix:
  assumes "p \<in> set city_prefixes"
  shows "strip_city_prefix (p @ rest) = rest"
  using assms by (auto simp: city_prefixes_def strip_city_prefix_def starts_with_def)

lemma strip_no_prefix:
  assumes "\<forall>p \<in> set city_prefixes. \<not> starts_with d p"
  shows "strip_city_prefix d = d"
proof -
  have "find (starts_with d) city_prefixes = None"
    using assms by (simp add: find_None_iff)
  then show ?thesis by (simp add: strip_city_prefix_def)
qed

lemma coordinate_resolution_written_keys:
  assumes "d \<notin> set object_prototype_keys" "strip_city_prefix d \<notin> set object_prototype_keys"
    and "cname \<notin> set object_prototype_keys"
  shows "getCoordinatesForDistrict (Own cname) d
         = (case map_of DISTRICT_COORDS d of
              Some c \<Rightarrow> Some (Own c)
            | None \<Rightarrow>
                (case map_of DISTRICT_COORDS (strip_city_prefix d) of
                   Some c \<Rightarrow> Some (Own c)
                 | None \<Rightarrow> map_option Own (map_of cityCenters cname)))"
  using assms
  by (simp add: getCoordinatesForDistrict_def lookup_property_def Let_def split: option.splits)

text \<open>
  C7 is what the code attempts, and the code misses it for a district named like a member
  of \<open>Object.prototype\<close>. The district \<open>constructor\<close> is not in the district table,
  stripping a city prefix does not change it, and Taipei has a centre point, so the
  order of the claim gives the centre point of Taipei; \<open>getCoordinatesForDistrict\<close>
  returns the inherited member \<open>constructor\<close> of the table object instead, because
  \<open>DISTRICT_COORDS[district]\<close> is truthy for it.
\<close>

theorem inherited_member_as_coordinates:
  "map_of DISTRICT_COORDS (str ''constructor'') = None \<and>
   strip_city_prefix (str ''constructor'') = str ''constructor'' \<and>
   normalizeCity Taipei_City = Own Taipei_City \<and>
   lookup_property cityCenters Taipei_City = Some (Own \<lparr>lat = fl 25.0330, lng = fl 121.5654\<rparr>) \<and>
   getCoordinatesForDistrict (normalizeCity Taipei_City) (str ''constructor'')
     = Some (Inherited (str ''constructor''))"
  by (simp add: DISTRICT_COORDS_def strip_city_prefix_def city_prefixes_def starts_with_def
      normalizeCity_def CITY_NAME_MAP_def lookup_property_def object_prototype_keys_def
      cityCenters_def getCoordinatesForDistrict_def)

section \<open>The paginated fetch\<close>

lemma taipei_loop_requests:
  "\<exists>n. 1 \<le> n \<and> n \<le> Suc (100000 - length acc) \<and>
       fst (taipei_loop api limit offset acc req) = req @ map (\<lambda>k. offset + limit * k) [0..<n]"
proof (induction api limit offset acc req rule: taipei_loop.induct)
  case (1 api limit offset acc req)
  show ?case
  proof (cases "api offset")
    case (Threw e)
    then have "fst (taipei_loop api limit offset acc req) = req @ map (\<lambda>k. offset + limit * k) [0..<1]"
      by (simp add: taipei_loop.simps [of api limit offset])
    then show ?thesis by (intro exI [of _ 1]) simp
  next
    case (NotOk st)
    then have "fst (taipei_loop api limit offset acc req) = req @ map (\<lambda>k. offset + limit * k) [0..<1]"
      by (simp add: taipei_loop.simps [of api limit offset])
    then show ?thesis by (intro exI [of _ 1]) simp
  next
    case (Ok records)
    show ?thesis
    proof (cases "length records = 0 \<or> length (acc @ records) > 100000")
      case True
      with Ok have "fst (taipei_loop api limit offset acc req) = req @ map (\<lambda>k. offset + limit * k) [0..<1]"
        by (auto simp add: taipei_loop.simps [of api limit offset])
      then show ?thesis by (intro exI [of _ 1]) simp
    next
      case False
      then have ne: "length records \<noteq> 0" and le: "\<not> length (acc @ records) > 100000" by simp_all
      from 1 [OF Ok ne le] obtain n where n: "1 \<le> n" "n \<le> Suc (100000 - length (acc @ records))"
        "fst (taipei_loop api limit (offset + limit) (acc @ records) (req @ [offset]))
          = (req @ [offset]) @ map (\<lambda>k. offset + limit + limit * k) [0..<n]"
        by blast
      have step: "taipei_loop api limit offset acc req
                  = taipei_loop api limit (offset + limit) (acc @ records) (req @ [offset])"
        using Ok ne le by (simp add: taipei_loop.simps [of api limit offset])
      have "map (\<lambda>k. offset + limit * k) [0..<Suc n]
            = offset # map (\<lambda>k. offset + limit + limit * k) [0..<n]"
        by (simp add: upt_conv_Cons map_Suc_upt [symmetric] del: upt_Suc) 
      then have "fst (taipei_loop api limit offset acc req)
                 = req @ map (\<lambda>k. offset + limit * k) [0..<Suc n]"
        using n(3) step by simp
      moreover have "1 \<le> length records"
        using ne by (cases records) simp_all
      then have "Suc n \<le> Suc (100000 - length acc)"
        using n(2) [unfolded length_append] le [unfolded length_append] by arith
      ultimately show ?thesis by (intro exI [of _ "Suc n"]) simp
    qed
  qed
qed


lemma taipei_loop_stops:
  "api (offset + limit * N) = Ok [] \<Longrightarrow>
   length (fst (taipei_loop api limit offset acc req)) \<le> length req + N + 1"
proof (induction N arbitrary: offset acc req)
  case 0
  then show ?case by (simp add: taipei_loop.simps [of api limit offset])
next
  case (Suc N)
  have next_empty: "api (offset + limit + limit * N) = Ok []"
    using Suc.prems by (simp add: add.assoc)
  show ?case
  proof (cases "api offset")
    case (Ok records)
    show ?thesis
    proof (cases "length records = 0 \<or> length (acc @ records) > 100000")
      case True
      with Ok show ?thesis by (auto simp add: taipei_loop.simps [of api limit offset])
    next
      case False
      then have "taipei_loop api limit offset acc req
                 = taipei_loop api limit (offset + limit) (acc @ records) (req @ [offset])"
        using Ok by (simp add: taipei_loop.simps [of api limit offset])
      with Suc.IH [OF next_empty, of "acc @ records" "req @ [offset]"] show ?thesis by simp
    qed
  qed (simp_all add: taipei_loop.simps [of api limit offset])
qed

lemma taipei_loop_all_pages:
  assumes "\<forall>k<length pages. api (offset + limit * k) = Ok (pages ! k) \<and> pages ! k \<noteq> []"
    and "api (offset + limit * length pages) = Ok []"
    and "length acc + length (concat pages) \<le> 100000"
  shows "taipei_loop api limit offset acc req
         = (req @ map (\<lambda>k. offset + limit * k) [0..<Suc (length pages)], Break (acc @ concat pages))"
  using assms
proof (induction pages arbitrary: offset acc req)
  case Nil
  then show ?case by (simp add: taipei_loop.simps [of api limit offset])
next
  case (Cons p ps)
  from Cons.prems(1) have here: "api offset = Ok p" "p \<noteq> []"
    by force+
  have later: "\<forall>k<length ps. api (offset + limit + limit * k) = Ok (ps ! k) \<and> ps ! k \<noteq> []"
  proof (intro allI impI)
    fix k assume "k < length ps"
    then have "Suc k < length (p # ps)" by simp
    with Cons.prems(1) have "api (offset + limit * Suc k) = Ok ((p # ps) ! Suc k) \<and> (p # ps) ! Suc k \<noteq> []"
      by blast
    then show "api (offset + limit + limit * k) = Ok (ps ! k) \<and> ps ! k \<noteq> []"
      by (simp add: add.assoc)
  qed
  have last: "api (offset + limit + limit * length ps) = Ok []"
    using Cons.prems(2) by (simp add: add.assoc)
  have room: "length (acc @ p) + length (concat ps) \<le> 100000"
    using Cons.prems(3) by simp
  then have fits: "\<not> length (acc @ p) > 100000" by simp
  have step: "taipei_loop api limit offset acc req
              = taipei_loop api limit (offset + limit) (acc @ p) (req @ [offset])"
    using here fits by (simp add: taipei_loop.simps [of api limit offset])
  have idx: "map (\<lambda>k. offset + limit * k) [0..<Suc (length (p # ps))]
             = offset # map (\<lambda>k. offset + limit + limit * k) [0..<Suc (length ps)]"
    by (simp add: upt_conv_Cons map_Suc_upt [symmetric] del: upt_Suc)
  show ?case
    unfolding step Cons.IH [OF later last room] idx by simp
qed

lemma taipei_loop_cap:
  "length acc \<le> 100000 \<Longrightarrow> snd (taipei_loop api limit offset acc req) = Break all \<Longrightarrow>
   \<exists>pre last. all = pre @ last \<and> length pre \<le> 100000 \<and> (last = [] \<or> (\<exists>off. api off = Ok last))"
proof (induction api limit offset acc req rule: taipei_loop.induct)
  case (1 api limit offset acc req)
  show ?case
  proof (cases "api offset")
    case (Ok records)
    show ?thesis
    proof (cases "length records = 0")
      case True
      with Ok 1(3) have "all = acc @ []"
        by (simp add: taipei_loop.simps [of api limit offset])
      with 1(2) show ?thesis by blast
    next
      case ne: False
      show ?thesis
      proof (cases "length (acc @ records) > 100000")
        case True
        with Ok ne 1(3) have "all = acc @ records"
          by (simp add: taipei_loop.simps [of api limit offset])
        with 1(2) Ok show ?thesis by blast
      next
        case False
        then have "length (acc @ records) \<le> 100000" by simp
        moreover have "snd (taipei_loop api limit (offset + limit) (acc @ records) (req @ [offset])) = Break all"
          using Ok ne False 1(3) by (simp add: taipei_loop.simps [of api limit offset])
        ultimately show ?thesis using 1(1) [OF Ok ne False] by blast
      qed
    qed
  qed (use 1(3) in \<open>simp_all add: taipei_loop.simps [of api limit offset]\<close>)
qed

lemma taipei_loop_endless:
  "k \<le> 100 \<Longrightarrow> length acc = 1000 * k \<Longrightarrow>
   \<exists>all. snd (taipei_loop (endless_listing 1000) 1000 offset acc req) = Break all \<and> length all = 101000"
proof (induction "100 - k" arbitrary: k offset acc req)
  case 0
  then have "length (acc @ replicate 1000 (0::nat)) = 101000" by simp
  then show ?case
    by (simp add: taipei_loop.simps [of _ 1000 offset] endless_listing_def)
next
  case (Suc m)
  then have "length (acc @ replicate 1000 (0::nat)) = 1000 * Suc k" "Suc k \<le> 100" "m = 100 - Suc k"
    by simp_all
  from Suc.hyps(1) [OF this(3) this(2) this(1)]
  obtain all where "snd (taipei_loop (endless_listing 1000) 1000 (offset + 1000)
                      (acc @ replicate 1000 0) (req @ [offset])) = Break all" "length all = 101000"
    by blast
  moreover have "taipei_loop (endless_listing 1000) 1000 offset acc req
        = taipei_loop (endless_listing 1000) 1000 (offset + 1000) (acc @ replicate 1000 0) (req @ [offset])"
  proof -
    have "k < 100" using Suc.hyps(2) by arith
    then have "\<not> 100000 < length (acc @ replicate 1000 (0::nat))"
      using Suc.prems(2) by simp
    then show ?thesis
      by (simp add: taipei_loop.simps [of _ 1000 offset acc] endless_listing_def)
  qed
  ultimately show ?case by simp
qed


lemma taipei_loop_return:
  "snd (taipei_loop api limit offset acc req) = Return r \<Longrightarrow> \<exists>msg. r = failure msg"
proof (induction api limit offset acc req rule: taipei_loop.induct)
  case (1 api limit offset acc req)
  show ?case
  proof (cases "api offset")
    case (Ok records)
    show ?thesis
    proof (cases "length records = 0 \<or> length (acc @ records) > 100000")
      case True
      with Ok 1(2) show ?thesis
        by (auto simp add: taipei_loop.simps [of api limit offset] split: if_splits)
    next
      case False
      then have ne: "length records \<noteq> 0" and le: "\<not> length (acc @ records) > 100000" by simp_all
      have "snd (taipei_loop api limit (offset + limit) (acc @ records) (req @ [offset])) = Return r"
        using Ok ne le 1(2) by (simp add: taipei_loop.simps [of api limit offset])
      then show ?thesis by (rule 1(1) [OF Ok ne le])
    qed
  qed (use 1(2) in \<open>auto simp add: taipei_loop.simps [of api limit offset]\<close>)
qed

text \<open>
  C3, as the code has it. The loop of \<open>fetchFromTaipei\<close> always ends (the model is a
  total function): whatever the upstream answers, it requests the offsets 0, 1000, 2000,
  ... in order and makes at most 100001 requests. If the page at offset 1000 * N is
  empty, no page after it is requested; if moreover the pages before it are non-empty and
  hold at most 100000 records together, exactly the pages 0 to N are requested and all
  their records are accumulated. A page is requested only while at most 100000 records
  are accumulated, so the accumulated records exceed 100000 by no more than the last page
  received: the count is at most 101000 when no page holds more than 1000 records.
\<close>

theorem pagination_terminates_within_cap:
  "(\<exists>n. 1 \<le> n \<and> n \<le> 100001 \<and>
        fst (fetchFromTaipei_run e ds) = map (\<lambda>k. 1000 * k) [0..<n]) \<and>
   (taipeiApi e ds 1000 (1000 * N) = Ok [] \<longrightarrow> length (fst (fetchFromTaipei_run e ds)) \<le> N + 1) \<and>
   ((\<forall>k<length pages. taipeiApi e ds 1000 (1000 * k) = Ok (pages ! k) \<and> pages ! k \<noteq> []) \<and>
    taipeiApi e ds 1000 (1000 * length pages) = Ok [] \<and> length (concat pages) \<le> 100000 \<longrightarrow>
      fetchFromTaipei_run e ds
        = (map (\<lambda>k. 1000 * k) [0..<Suc (length pages)], Break (concat pages))) \<and>
   (snd (fetchFromTaipei_run e ds) = Break all \<longrightarrow>
      (\<exists>pre last. all = pre @ last \<and> length pre \<le> 100000 \<and>
         (last = [] \<or> (\<exists>off. taipeiApi e ds 1000 off = Ok last)))) \<and>
   ((\<forall>off recs. taipeiApi e ds 1000 off = Ok recs \<longrightarrow> length recs \<le> 1000) \<and>
    FetchResult.recordCount (fetchFromTaipei e ds) = Some c \<longrightarrow> c \<le> 101000)"
proof (intro conjI impI)
  show "\<exists>n. 1 \<le> n \<and> n \<le> 100001 \<and> fst (fetchFromTaipei_run e ds) = map (\<lambda>k. 1000 * k) [0..<n]"
    using taipei_loop_requests [of "[]" "taipeiApi e ds 1000" 1000 0 "[]"]
    by (simp add: fetchFromTaipei_run_def)
next
  assume "taipeiApi e ds 1000 (1000 * N) = Ok []"
  then show "length (fst (fetchFromTaipei_run e ds)) \<le> N + 1"
    using taipei_loop_stops [of "taipeiApi e ds 1000" 0 1000 N "[]" "[]"]
    by (simp add: fetchFromTaipei_run_def)
next
  assume "(\<forall>k<length pages. taipeiApi e ds 1000 (1000 * k) = Ok (pages ! k) \<and> pages ! k \<noteq> []) \<and>
    taipeiApi e ds 1000 (1000 * length pages) = Ok [] \<and> length (concat pages) \<le> 100000"
  then show "fetchFromTaipei_run e ds
        = (map (\<lambda>k. 1000 * k) [0..<Suc (length pages)], Break (concat pages))"
    using taipei_loop_all_pages [of pages "taipeiApi e ds 1000" 0 1000 "[]" "[]"]
    by (simp add: fetchFromTaipei_run_def)
next
  assume "snd (fetchFromTaipei_run e ds) = Break all"
  then show "\<exists>pre last. all = pre @ last \<and> length pre \<le> 100000 \<and>
         (last = [] \<or> (\<exists>off. taipeiApi e ds 1000 off = Ok last))"
    using taipei_loop_cap [of "[]" "taipeiApi e ds 1000" 1000 0 "[]" all]
    by (simp add: fetchFromTaipei_run_def)
next
  assume a: "(\<forall>off recs. taipeiApi e ds 1000 off = Ok recs \<longrightarrow> length recs \<le> 1000) \<and>
    FetchResult.recordCount (fetchFromTaipei e ds) = Some c"
  then obtain all where all: "snd (fetchFromTaipei_run e ds) = Break all" "c = length all"
    using taipei_loop_return [of "taipeiApi e ds 1000" 1000 0 "[]" "[]"]
    by (auto simp: fetchFromTaipei_def fetchFromTaipei_run_def failure_def
        split: loop_exit.splits if_splits)
  from taipei_loop_cap [of "[]" "taipeiApi e ds 1000" 1000 0 "[]" all] all(1)
  obtain pre last where pl: "all = pre @ last" "length pre \<le> 100000"
    "last = [] \<or> (\<exists>off. taipeiApi e ds 1000 off = Ok last)"
    by (auto simp: fetchFromTaipei_run_def)
  from pl(3) a have "length last \<le> 1000" by auto
  with pl(1,2) all(2) show "c \<le> 101000" by simp
qed

theorem pagination_terminates_within_cap_witness:
  "fetchFromTaipei_run (example_env two_page_listing) (str ''134972'')
     = ([0, 1000, 2000], Break [1, 2, 3, 4, 5]) \<and>
   length (fst (fetchFromTaipei_run (example_env two_page_listing) (str ''134972''))) \<le> 2 + 1 \<and>
   FetchResult.recordCount (fetchFromTaipei (example_env two_page_listing) (str ''134972'')) = Some 5 \<and>
   (5::nat) \<le> 101000"
proof -
  let ?e = "example_env two_page_listing"
  have pages: "\<forall>k<length [ [1, 2, 3], [4, 5::nat] ].
      taipeiApi ?e (str ''134972'') 1000 (1000 * k) = Ok ([ [1, 2, 3], [4, 5] ] ! k) \<and>
      [ [1, 2, 3], [4, 5::nat] ] ! k \<noteq> []"
    by (simp add: example_env_def two_page_listing_def less_Suc_eq numeral_2_eq_2)
  have empty: "taipeiApi ?e (str ''134972'') 1000 (1000 * length [ [1, 2, 3], [4, 5::nat] ]) = Ok []"
    "taipeiApi ?e (str ''134972'') 1000 (1000 * 2) = Ok []"
    by (simp_all add: example_env_def two_page_listing_def)
  have small: "\<forall>off recs. taipeiApi ?e (str ''134972'') 1000 off = Ok recs \<longrightarrow> length recs \<le> 1000"
    by (auto simp: example_env_def two_page_listing_def split: if_splits)
  have run: "fetchFromTaipei_run ?e (str ''134972'') = ([0, 1000, 2000], Break [1, 2, 3, 4, 5])"
    using pagination_terminates_within_cap [of ?e "str ''134972''" 2 "[ [1, 2, 3], [4, 5] ]" "[1, 2, 3, 4, 5]" 5]
      pages empty
    by (simp add: upt_conv_Cons del: upt_Suc)
  have count: "FetchResult.recordCount (fetchFromTaipei ?e (str ''134972'')) = Some 5"
    using run by (simp add: fetchFromTaipei_def)
  show ?thesis
    using pagination_terminates_within_cap [of ?e "str ''134972''" 2 "[ [1, 2, 3], [4, 5] ]" "[1, 2, 3, 4, 5]" 5]
      run count empty small
    by simp
qed

text \<open>
  C3, as the spec states it, fails: the limit is tested after a page has been added, so
  an upstream that answers every request with a full page of 1000 records makes the fetch
  succeed with 101000 accumulated records.
\<close>

theorem safety_cap_exceeded:
  "FetchResult.recordCount (fetchFromTaipei (example_env endless_listing) (str ''134972''))
     = Some 101000 \<and> \<not> (101000::nat) \<le> 100000"
proof -
  obtain all where "snd (taipei_loop (endless_listing 1000) 1000 0 [] []) = Break all"
    "length all = 101000"
    using taipei_loop_endless [of 0 "[]" 0 "[]"] by auto
  then show ?thesis
    by (simp add: fetchFromTaipei_def fetchFromTaipei_run_def example_env_def)
qed

text \<open>
  C9. When the first page of the listing is empty, \<open>fetchFromTaipei\<close> returns the
  failure with the message \<open>No records found\<close>, without data.
\<close>

theorem empty_listing_is_failure:
  "taipeiApi e ds 1000 0 = Ok [] \<Longrightarrow>
   fetchFromTaipei e ds
     = \<lparr>FetchResult.success = False, data = None, FetchResult.error = Some (str ''No records found''),
        FetchResult.recordCount = None\<rparr>"
  by (simp add: fetchFromTaipei_def fetchFromTaipei_run_def failure_def
      taipei_loop.simps [of _ 1000 0])

theorem empty_listing_is_failure_witness:
  "taipeiApi (example_env empty_listing) (str ''134972'') 1000 0 = Ok [] \<and>
   fetchFromTaipei (example_env empty_listing) (str ''134972'')
     = \<lparr>FetchResult.success = False, data = None, FetchResult.error = Some (str ''No records found''),
        FetchResult.recordCount = None\<rparr>"
proof -
  have h: "taipeiApi (example_env empty_listing) (str ''134972'') 1000 0 = Ok []"
    by (simp add: example_env_def empty_listing_def)
  show ?thesis
    using empty_listing_is_failure [OF h] h by simp
qed


section \<open>Batched upserts\<close>

lemma chunks_Nil [simp]: "chunks n [] = []"
  by (simp add: chunks.simps)

lemma chunks_step: "0 < n \<Longrightarrow> xs \<noteq> [] \<Longrightarrow> chunks n xs = take n xs # chunks n (drop n xs)"
  by (subst chunks.simps) simp

lemma concat_chunks: "0 < n \<Longrightarrow> concat (chunks n xs) = xs"
proof (induction n xs rule: chunks.induct)
  case (1 n xs)
  then show ?case by (cases "xs = []") (simp_all add: chunks_step)
qed

lemma chunks_sizes:
  "0 < n \<Longrightarrow> b \<in> set (chunks n xs) \<Longrightarrow> 0 < length b \<and> length b \<le> n"
proof (induction n xs rule: chunks.induct)
  case (1 n xs)
  show ?case
  proof (cases "xs = []")
    case True
    with 1(3) show ?thesis by simp
  next
    case False
    with 1(2,3) have "b = take n xs \<or> b \<in> set (chunks n (drop n xs))"
      by (simp add: chunks_step)
    then show ?thesis
    proof
      assume "b = take n xs"
      with False 1(2) show ?thesis by (cases xs) simp_all
    next
      assume "b \<in> set (chunks n (drop n xs))"
      with 1(1) False 1(2) show ?thesis by simp
    qed
  qed
qed

lemma chunks_full:
  "0 < n \<Longrightarrow> Suc k < length (chunks n xs) \<Longrightarrow> length (chunks n xs ! k) = n"
proof (induction n xs arbitrary: k rule: chunks.induct)
  case (1 n xs)
  show ?case
  proof (cases "xs = []")
    case True
    with 1(3) show ?thesis by simp
  next
    case False
    then have c: "chunks n xs = take n xs # chunks n (drop n xs)"
      using 1(2) by (simp add: chunks_step)
    show ?thesis
    proof (cases k)
      case 0
      have "drop n xs \<noteq> []"
        using 1(3) c 0 by (cases "drop n xs = []") simp_all
      then have "n < length xs" by simp
      with c 0 show ?thesis by simp
    next
      case (Suc j)
      with 1(3) c have "Suc j < length (chunks n (drop n xs))" by simp
      with 1(1) False 1(2) have "length (chunks n (drop n xs) ! j) = n" by simp
      with c Suc show ?thesis by simp
    qed
  qed
qed

lemma batch_results_Cons:
  "batch_results upsert st (b # bs)
   = (fst (upsert st b) # fst (batch_results upsert (snd (upsert st b)) bs),
      snd (batch_results upsert (snd (upsert st b)) bs))"
  by (simp split: prod.splits)

lemma length_batch_results: "length (fst (batch_results upsert st bs)) = length bs"
  by (induction bs arbitrary: st) (simp_all add: batch_results_Cons del: batch_results.simps(2))

lemma upsert_batches_chunks:
  "upsert_batches upsert nd i tot st
   = (tot + sum_list (map written (fst (batch_results upsert st
                 (chunks batchSize (map dbRecord (drop i nd)))))),
      snd (batch_results upsert st (chunks batchSize (map dbRecord (drop i nd)))))"
proof (induction upsert nd i tot st rule: upsert_batches.induct)
  case (1 upsert nd i tot st)
  show ?case
  proof (cases "i < length nd")
    case False
    then show ?thesis by (simp add: upsert_batches.simps [of upsert nd i])
  next
    case True
    define batch where "batch = slice i (i + batchSize) nd"
    define dbRecords where "dbRecords = map dbRecord batch"
    obtain res st' where up: "upsert st dbRecords = (res, st')"
      by (cases "upsert st dbRecords")
    have ne: "map dbRecord (drop i nd) \<noteq> []"
      using True by simp
    have hd: "take batchSize (map dbRecord (drop i nd)) = dbRecords"
      by (simp add: dbRecords_def batch_def slice_def take_map)
    have tl: "drop batchSize (map dbRecord (drop i nd)) = map dbRecord (drop (i + batchSize) nd)"
      by (simp add: drop_map add.commute)
    have c: "chunks batchSize (map dbRecord (drop i nd))
             = dbRecords # chunks batchSize (map dbRecord (drop (i + batchSize) nd))"
      using chunks_step [OF _ ne, of batchSize] hd tl by (simp add: batchSize_def)
    have step: "upsert_batches upsert nd i tot st
                = upsert_batches upsert nd (i + batchSize) (tot + written res) st'"
      using True up
      by (simp add: upsert_batches.simps [of upsert nd i] dbRecords_def batch_def Let_def)
    have IH: "upsert_batches upsert nd (i + batchSize) (tot + written res) st'
      = (tot + written res + sum_list (map written (fst (batch_results upsert st'
                 (chunks batchSize (map dbRecord (drop (i + batchSize) nd)))))),
         snd (batch_results upsert st' (chunks batchSize (map dbRecord (drop (i + batchSize) nd)))))"
      using 1 [OF True batch_def dbRecords_def up [symmetric] ] by simp
    show ?thesis
      unfolding step IH c using up by (simp add: batch_results_Cons del: batch_results.simps(2))
  qed
qed


text \<open>
  C8. The batch size is 100. The upsert loop of a city's sync submits the records in
  consecutive batches (all of exactly 100 records but possibly the last, none empty,
  together all the records in order), each batch on the store state the previous one
  left, whether or not earlier batches failed; the count it returns is the sum over the
  batches of the rows a successful batch reports as written, a failed batch adding
  nothing. Once the fetch has succeeded, the city's result has \<open>success = true\<close> and
  this count, whatever the batches did.
\<close>

theorem batched_upsert_best_effort:
  "batchSize = 100 \<and>
   upsert_batches upsert nd 0 0 st
     = (sum_list (map written (fst (batch_results upsert st (chunks 100 (map dbRecord nd))))),
        snd (batch_results upsert st (chunks 100 (map dbRecord nd)))) \<and>
   length (fst (batch_results upsert st (chunks 100 (map dbRecord nd))))
     = length (chunks 100 (map dbRecord nd)) \<and>
   concat (chunks 100 (map dbRecord nd)) = map dbRecord nd \<and>
   (\<forall>b \<in> set (chunks 100 (map dbRecord nd)). 0 < length b \<and> length b \<le> 100) \<and>
   (\<forall>k. Suc k < length (chunks 100 (map dbRecord nd)) \<longrightarrow>
        length (chunks 100 (map dbRecord nd) ! k) = 100) \<and>
   written (UpsertError err) = 0 \<and> written (UpsertData (Some rows)) = length rows \<and>
   (city_source e c = Some (fr, parse) \<and> FetchResult.success fr \<and> truthy (FetchResult.data fr) \<longrightarrow>
      syncCityData e upsert c st
        = (\<lparr>SyncResult.city = c, SyncResult.success = True,
            SyncResult.recordCount =
              fst (upsert_batches upsert (normalizeData (parse (the (FetchResult.data fr))) (Some c)) 0 0 st),
            SyncResult.error = None\<rparr>,
           snd (upsert_batches upsert (normalizeData (parse (the (FetchResult.data fr))) (Some c)) 0 0 st)))"
proof (intro conjI)
  show "batchSize = 100" by (simp add: batchSize_def)
  show "upsert_batches upsert nd 0 0 st
     = (sum_list (map written (fst (batch_results upsert st (chunks 100 (map dbRecord nd))))),
        snd (batch_results upsert st (chunks 100 (map dbRecord nd))))"
    using upsert_batches_chunks [of upsert nd 0 0 st] by (simp add: batchSize_def)
  show "length (fst (batch_results upsert st (chunks 100 (map dbRecord nd))))
     = length (chunks 100 (map dbRecord nd))"
    by (rule length_batch_results)
  show "concat (chunks 100 (map dbRecord nd)) = map dbRecord nd"
    by (rule concat_chunks) simp
  show "\<forall>b \<in> set (chunks 100 (map dbRecord nd)). 0 < length b \<and> length b \<le> 100"
    using chunks_sizes [of 100 _ "map dbRecord nd"] by simp
  show "\<forall>k. Suc k < length (chunks 100 (map dbRecord nd)) \<longrightarrow>
        length (chunks 100 (map dbRecord nd) ! k) = 100"
    using chunks_full [of 100 _ "map dbRecord nd"] by simp
  show "written (UpsertError err) = 0" "written (UpsertData (Some rows)) = length rows"
    by (simp_all add: written_def)
  show "city_source e c = Some (fr, parse) \<and> FetchResult.success fr \<and> truthy (FetchResult.data fr) \<longrightarrow>
      syncCityData e upsert c st
        = (\<lparr>SyncResult.city = c, SyncResult.success = True,
            SyncResult.recordCount =
              fst (upsert_batches upsert (normalizeData (parse (the (FetchResult.data fr))) (Some c)) 0 0 st),
            SyncResult.error = None\<rparr>,
           snd (upsert_batches upsert (normalizeData (parse (the (FetchResult.data fr))) (Some c)) 0 0 st))"
    by (simp add: syncCityData_def Let_def split: prod.splits)
qed

lemma chunks_150:
  "chunks 100 (replicate 150 x) = [replicate 100 x, replicate 50 x]"
proof -
  have "chunks 100 (replicate 150 x) = replicate 100 x # chunks 100 (replicate 50 x)"
    by (subst chunks.simps) simp
  also have "chunks 100 (replicate 50 x) = replicate 50 x # chunks 100 []"
    by (subst chunks.simps) simp
  finally show ?thesis by simp
qed

lemma taipei_source:
  "city_source partial_failure_env Taipei_City
   = Some (\<lparr>FetchResult.success = True, data = Some (str ''taipei.csv''), FetchResult.error = None,
            FetchResult.recordCount = Some 5\<rparr>,
           \<lambda>csv. TaipeiParser_parse (parseFloat partial_failure_env)
                   (papaParse partial_failure_env True csv))"
proof -
  have "taipei_loop (two_page_listing 1000) 1000 0 [] []
        = ([] @ map (\<lambda>k. 0 + 1000 * k) [0..<Suc (length [ [1, 2, 3], [4, 5::nat] ])],
           Break ([] @ concat [ [1, 2, 3], [4, 5] ]))"
    by (rule taipei_loop_all_pages)
       (simp_all add: two_page_listing_def less_Suc_eq numeral_2_eq_2)
  then show ?thesis
    by (simp add: city_source_def fetchFromTaipei_def fetchFromTaipei_run_def partial_failure_env_def)
qed

theorem batched_upsert_best_effort_witness:
  "upsert_batches flaky_upsert (replicate 150 example_land) 0 0 0 = (50, 2) \<and>
   chunks 100 (map dbRecord (replicate 150 example_land))
     = [replicate 100 (dbRecord example_land), replicate 50 (dbRecord example_land)] \<and>
   syncCityData partial_failure_env flaky_upsert Taipei_City 0
     = (\<lparr>SyncResult.city = Taipei_City, SyncResult.success = True, SyncResult.recordCount = 0,
         SyncResult.error = None\<rparr>, 1) \<and>
   syncCityData partial_failure_env flaky_upsert Taipei_City 1
     = (\<lparr>SyncResult.city = Taipei_City, SyncResult.success = True, SyncResult.recordCount = 1,
         SyncResult.error = None\<rparr>, 2)"
proof -
  let ?parse = "\<lambda>csv. TaipeiParser_parse (parseFloat partial_failure_env)
                   (papaParse partial_failure_env True csv)"
  let ?fr = "\<lparr>FetchResult.success = True, data = Some (str ''taipei.csv''), FetchResult.error = None,
            FetchResult.recordCount = Some 5\<rparr>"
  let ?nd = "normalizeData (?parse (the (FetchResult.data ?fr))) (Some Taipei_City)"
  have c: "chunks 100 (map dbRecord (replicate 150 example_land))
           = [replicate 100 (dbRecord example_land), replicate 50 (dbRecord example_land)]"
    by (simp add: chunks_150)
  have "length ?nd = 1"
    by (simp add: normalizeData_def TaipeiParser_parse_def TaipeiParser_keep_def
        partial_failure_env_def land_only_row_def col_def)
  then obtain x where x: "?nd = [x]"
    by (cases ?nd) simp_all
  have chunk1: "chunks 100 [dbRecord x] = [ [dbRecord x] ]"
    by (subst chunks.simps) simp
  have fetched: "city_source partial_failure_env Taipei_City = Some (?fr, ?parse) \<and>
      FetchResult.success ?fr \<and> truthy (FetchResult.data ?fr)"
    using taipei_source by simp
  note many = batched_upsert_best_effort [of flaky_upsert "replicate 150 example_land" 0 "[]" "[]"
      partial_failure_env Taipei_City ?fr ?parse, THEN conjunct2, THEN conjunct1]
  note first = batched_upsert_best_effort [of flaky_upsert "[x]" 0 "[]" "[]"
      partial_failure_env Taipei_City ?fr ?parse, THEN conjunct2]
  note later = batched_upsert_best_effort [of flaky_upsert "[x]" 1 "[]" "[]"
      partial_failure_env Taipei_City ?fr ?parse, THEN conjunct2]
  note drill = conjunct2 [THEN conjunct2, THEN conjunct2, THEN conjunct2, THEN conjunct2,
      THEN conjunct2, THEN conjunct2, THEN mp]
  have b150: "upsert_batches flaky_upsert (replicate 150 example_land) 0 0 0 = (50, 2)"
    using many by (simp add: chunks_150 flaky_upsert_def written_def)
  have u0: "upsert_batches flaky_upsert [x] 0 0 0 = (0, 1)"
    using first [THEN conjunct1] by (simp add: chunk1 flaky_upsert_def written_def)
  have u1: "upsert_batches flaky_upsert [x] 0 0 1 = (1, 2)"
    using later [THEN conjunct1] by (simp add: chunk1 flaky_upsert_def written_def)
  have s0: "syncCityData partial_failure_env flaky_upsert Taipei_City 0
     = (\<lparr>SyncResult.city = Taipei_City, SyncResult.success = True, SyncResult.recordCount = 0,
         SyncResult.error = None\<rparr>, 1)"
    using first [THEN drill, OF fetched, unfolded x] u0 by simp
  have s1: "syncCityData partial_failure_env flaky_upsert Taipei_City 1
     = (\<lparr>SyncResult.city = Taipei_City, SyncResult.success = True, SyncResult.recordCount = 1,
         SyncResult.error = None\<rparr>, 2)"
    using later [THEN drill, OF fetched, unfolded x] u1 by simp
  show ?thesis using b150 c s0 s1 by simp
qed


section \<open>Partial failures across cities\<close>

lemma lands_update_log [simp]: "unclaimed_lands (update_log logId f db) = unclaimed_lands db"
  by (simp add: update_log_def)

lemma lands_update_source [simp]: "unclaimed_lands (update_source c f db) = unclaimed_lands db"
  by (simp add: update_source_def)

lemma logs_update_log [simp]: "length (sync_logs (update_log logId f db)) = length (sync_logs db)"
  by (simp add: update_log_def)

lemma logs_update_source [simp]: "sync_logs (update_source c f db) = sync_logs db"
  by (simp add: update_source_def)

lemma sync_cities_results:
  "fst (sync_cities uuid sync cities k results db)
   = results @ city_results sync cities (unclaimed_lands db)"
proof (induction cities arbitrary: k results db)
  case Nil
  show ?case by simp
next
  case (Cons c cities)
  obtain outcome lands where o: "sync c (unclaimed_lands db) = (outcome, lands)"
    by (cases "sync c (unclaimed_lands db)")
  show ?case
  proof (cases outcome)
    case (Inl errorMessage)
    with o show ?thesis by (simp add: Let_def Cons.IH city_outcome_def)
  next
    case (Inr result)
    with o show ?thesis by (simp add: Let_def Cons.IH city_outcome_def)
  qed
qed

lemma sync_cities_logs:
  "length (sync_logs (snd (sync_cities uuid sync cities k results db)))
   = length (sync_logs db) + length cities"
proof (induction cities arbitrary: k results db)
  case Nil
  show ?case by simp
next
  case (Cons c cities)
  obtain outcome lands where o: "sync c (unclaimed_lands db) = (outcome, lands)"
    by (cases "sync c (unclaimed_lands db)")
  show ?case
  proof (cases outcome)
    case (Inl errorMessage)
    with o show ?thesis by (simp add: Let_def Cons.IH)
  next
    case (Inr result)
    with o show ?thesis by (simp add: Let_def Cons.IH)
  qed
qed

lemma length_city_results: "length (city_results sync cities st) = length cities"
  by (induction cities arbitrary: st) simp_all

lemma nth_city_results:
  "i < length cities \<Longrightarrow>
   city_results sync cities st ! i
   = city_outcome (cities ! i) (fst (sync (cities ! i) (lands_after sync (take i cities) st)))"
proof (induction cities arbitrary: i st)
  case Nil
  then show ?case by simp
next
  case (Cons c cities)
  then show ?case by (cases i) simp_all
qed

lemma syncCityData_city: "SyncResult.city (fst (syncCityData e upsert c st)) = c"
  by (simp add: syncCityData_def Let_def split: option.splits prod.splits)

lemma cron_sync_fst: "fst (cron_sync e upsert c st) = Inr (fst (syncCityData e upsert c st))"
  and cron_sync_snd: "snd (cron_sync e upsert c st) = snd (syncCityData e upsert c st)"
  by (simp_all add: cron_sync_def split: prod.splits)

lemma cron_results_cities:
  "map SyncResult.city (city_results (cron_sync e upsert) cities st) = cities"
  by (induction cities arbitrary: st)
     (simp_all add: cron_sync_fst city_outcome_def syncCityData_city)

text \<open>
  C1. A run over a list of cities answers with one result per city, in the order of the
  list: the result at position \<open>i\<close> is what the sync of city \<open>i\<close> returned (or a
  failed result carrying the message it threw), that sync having run on the land table
  the cities before it left, whether they succeeded or failed. The run-level success
  flag is true exactly when every per-city result is a success. The results of the cron
  route name the cities of the list, one log row is written per city, and an authorised
  \<open>GET\<close> is this run over the four cities of the route.
\<close>

theorem partial_failure_isolation:
  "fst (run_sync uuid sync cities db)
     = SyncJson (list_all SyncResult.success (city_results sync cities (unclaimed_lands db)))
         (city_results sync cities (unclaimed_lands db)) \<and>
   length (city_results sync cities st) = length cities \<and>
   (\<forall>i<length cities.
      city_results sync cities st ! i
        = city_outcome (cities ! i) (fst (sync (cities ! i) (lands_after sync (take i cities) st)))) \<and>
   (list_all SyncResult.success (city_results sync cities st) \<longleftrightarrow>
      (\<forall>i<length cities. SyncResult.success (city_results sync cities st ! i))) \<and>
   map SyncResult.city (city_results (cron_sync e upsert) cities st) = cities \<and>
   length (sync_logs (snd (run_sync uuid sync cities db))) = length (sync_logs db) + length cities \<and>
   ((truthy cronSecret \<longrightarrow> authHeader = Some (str ''Bearer '' @ the cronSecret)) \<and>
    (\<not> truthy cronSecret \<longrightarrow> nodeEnv \<noteq> Some (str ''production'')) \<longrightarrow>
      GET e upsert uuid authHeader cronSecret nodeEnv db
        = run_sync uuid (cron_sync e upsert) cron_cities db)"
proof (intro conjI)
  show "fst (run_sync uuid sync cities db)
     = SyncJson (list_all SyncResult.success (city_results sync cities (unclaimed_lands db)))
         (city_results sync cities (unclaimed_lands db))"
    using sync_cities_results [of uuid sync cities 0 "[]" db]
    by (cases "sync_cities uuid sync cities 0 [] db") (simp add: run_sync_def Let_def)
  show "length (city_results sync cities st) = length cities"
    by (rule length_city_results)
  show "\<forall>i<length cities.
      city_results sync cities st ! i
        = city_outcome (cities ! i) (fst (sync (cities ! i) (lands_after sync (take i cities) st)))"
    by (simp add: nth_city_results)
  show "list_all SyncResult.success (city_results sync cities st) \<longleftrightarrow>
      (\<forall>i<length cities. SyncResult.success (city_results sync cities st ! i))"
    by (simp add: list_all_length length_city_results)
  show "map SyncResult.city (city_results (cron_sync e upsert) cities st) = cities"
    by (rule cron_results_cities)
  show "length (sync_logs (snd (run_sync uuid sync cities db))) = length (sync_logs db) + length cities"
    using sync_cities_logs [of uuid sync cities 0 "[]" db]
    by (cases "sync_cities uuid sync cities 0 [] db") (simp add: run_sync_def Let_def)
  show "(truthy cronSecret \<longrightarrow> authHeader = Some (str ''Bearer '' @ the cronSecret)) \<and>
    (\<not> truthy cronSecret \<longrightarrow> nodeEnv \<noteq> Some (str ''production'')) \<longrightarrow>
      GET e upsert uuid authHeader cronSecret nodeEnv db
        = run_sync uuid (cron_sync e upsert) cron_cities db"
    by (auto simp: GET_def)
qed


lemma chunks_single: "chunks 100 [y] = [ [y] ]"
  by (subst chunks.simps) simp

lemma syncCityData_fetched:
  assumes "city_source e c = Some (fr, parse)" "FetchResult.success fr" "truthy (FetchResult.data fr)"
  shows "syncCityData e upsert c st
        = (\<lparr>SyncResult.city = c, SyncResult.success = True,
            SyncResult.recordCount =
              fst (upsert_batches upsert (normalizeData (parse (the (FetchResult.data fr))) (Some c)) 0 0 st),
            SyncResult.error = None\<rparr>,
           snd (upsert_batches upsert (normalizeData (parse (the (FetchResult.data fr))) (Some c)) 0 0 st))"
  using assms by (simp add: syncCityData_def Let_def split: prod.splits)

lemma upsert_single_accepted:
  "fst (upsert_batches (table_upsert accept_all) [x] 0 0 t) = 1"
  by (simp add: upsert_batches_chunks batchSize_def chunks_single table_upsert_def accept_all_def
      written_def)

lemma sync_taipei_example:
  "fst (syncCityData partial_failure_env (table_upsert accept_all) Taipei_City t)
   = \<lparr>SyncResult.city = Taipei_City, SyncResult.success = True, SyncResult.recordCount = 1,
      SyncResult.error = None\<rparr>"
proof -
  let ?parse = "\<lambda>csv. TaipeiParser_parse (parseFloat partial_failure_env)
                   (papaParse partial_failure_env True csv)"
  let ?fr = "\<lparr>FetchResult.success = True, data = Some (str ''taipei.csv''), FetchResult.error = None,
            FetchResult.recordCount = Some 5\<rparr>"
  let ?nd = "normalizeData (?parse (the (FetchResult.data ?fr))) (Some Taipei_City)"
  have "length ?nd = 1"
    by (simp add: normalizeData_def TaipeiParser_parse_def TaipeiParser_keep_def
        partial_failure_env_def land_only_row_def col_def)
  then obtain x where x: "?nd = [x]"
    by (cases ?nd) simp_all
  have ok: "FetchResult.success ?fr" "truthy (FetchResult.data ?fr)"
    by simp_all
  show ?thesis
    using syncCityData_fetched [OF taipei_source ok, of "table_upsert accept_all" t, unfolded x]
    by (simp add: upsert_single_accepted)
qed

lemma sync_chiayi_example:
  "c = Chiayi_City \<or> c = Chiayi_County \<Longrightarrow>
   syncCityData partial_failure_env upsert c t
   = (\<lparr>SyncResult.city = c, SyncResult.success = False, SyncResult.recordCount = 0,
       SyncResult.error = Some (str ''Failed to fetch metadata: 500'')\<rparr>, t)"
  by (auto simp add: syncCityData_def city_source_def fetchFromDataGov_def partial_failure_env_def
      failure_def or_default_def decimal.simps)

lemma changhua_source:
  "city_source partial_failure_env Changhua_County
   = Some (\<lparr>FetchResult.success = True, data = Some (str ''changhua.csv''), FetchResult.error = None,
            FetchResult.recordCount = Some 1\<rparr>,
           \<lambda>csv. ChanghuaParser_parse (parseFloat partial_failure_env)
                   (papaParse partial_failure_env True csv))"
  by (simp add: city_source_def fetchFromDataGov_def partial_failure_env_def is_csv_def
      toLowerCase_def)

lemma sync_changhua_example:
  "fst (syncCityData partial_failure_env (table_upsert accept_all) Changhua_County t)
   = \<lparr>SyncResult.city = Changhua_County, SyncResult.success = True, SyncResult.recordCount = 1,
      SyncResult.error = None\<rparr>"
proof -
  let ?parse = "\<lambda>csv. ChanghuaParser_parse (parseFloat partial_failure_env)
                   (papaParse partial_failure_env True csv)"
  let ?fr = "\<lparr>FetchResult.success = True, data = Some (str ''changhua.csv''), FetchResult.error = None,
            FetchResult.recordCount = Some 1\<rparr>"
  let ?nd = "normalizeData (?parse (the (FetchResult.data ?fr))) (Some Changhua_County)"
  have "length ?nd = 1"
    by (simp add: normalizeData_def ChanghuaParser_parse_def ChanghuaParser_keep_def
        partial_failure_env_def owner_only_row_def col_def)
  then obtain x where x: "?nd = [x]"
    by (cases ?nd) simp_all
  have ok: "FetchResult.success ?fr" "truthy (FetchResult.data ?fr)"
    by simp_all
  show ?thesis
    using syncCityData_fetched [OF changhua_source ok, of "table_upsert accept_all" t, unfolded x]
    by (simp add: upsert_single_accepted)
qed

theorem partial_failure_isolation_witness:
  "fst (run_sync example_uuid (cron_sync partial_failure_env (table_upsert accept_all))
          [Taipei_City, Chiayi_City, Changhua_County] empty_store)
     = SyncJson False
         [\<lparr>SyncResult.city = Taipei_City, SyncResult.success = True, SyncResult.recordCount = 1,
           SyncResult.error = None\<rparr>,
          \<lparr>SyncResult.city = Chiayi_City, SyncResult.success = False, SyncResult.recordCount = 0,
           SyncResult.error = Some (str ''Failed to fetch metadata: 500'')\<rparr>,
          \<lparr>SyncResult.city = Changhua_County, SyncResult.success = True, SyncResult.recordCount = 1,
           SyncResult.error = None\<rparr>] \<and>
   fst (GET partial_failure_env (table_upsert accept_all) example_uuid None None None empty_store)
     = SyncJson False
         [\<lparr>SyncResult.city = Taipei_City, SyncResult.success = True, SyncResult.recordCount = 1,
           SyncResult.error = None\<rparr>,
          \<lparr>SyncResult.city = Chiayi_City, SyncResult.success = False, SyncResult.recordCount = 0,
           SyncResult.error = Some (str ''Failed to fetch metadata: 500'')\<rparr>,
          \<lparr>SyncResult.city = Chiayi_County, SyncResult.success = False, SyncResult.recordCount = 0,
           SyncResult.error = Some (str ''Failed to fetch metadata: 500'')\<rparr>,
          \<lparr>SyncResult.city = Changhua_County, SyncResult.success = True, SyncResult.recordCount = 1,
           SyncResult.error = None\<rparr>]"
proof -
  let ?sync = "cron_sync partial_failure_env (table_upsert accept_all)"
  have auth: "(truthy None \<longrightarrow> None = Some (str ''Bearer '' @ the None)) \<and>
              (\<not> truthy None \<longrightarrow> None \<noteq> Some (str ''production''))"
    by simp
  note three = partial_failure_isolation [of example_uuid ?sync
      "[Taipei_City, Chiayi_City, Changhua_County]" empty_store "[]"
      partial_failure_env "table_upsert accept_all" None None None, THEN conjunct1]
  note four = partial_failure_isolation [of example_uuid ?sync cron_cities empty_store "[]"
      partial_failure_env "table_upsert accept_all" None None None]
  note get = four [THEN conjunct2, THEN conjunct2, THEN conjunct2, THEN conjunct2, THEN conjunct2,
      THEN conjunct2, THEN mp, OF auth]
  show ?thesis
    unfolding get three four [THEN conjunct1]
    by (simp add: cron_cities_def cron_sync_fst cron_sync_snd city_outcome_def sync_taipei_example
        sync_chiayi_example sync_changhua_example empty_store_def)
qed


section \<open>Running a sync twice\<close>

lemma keys_upsert_row:
  "map conflict_key (upsert_row t r)
   = (if conflict_key r \<in> stored_keys t then map conflict_key t
      else map conflict_key t @ [conflict_key r])"
proof -
  have "map conflict_key (map (\<lambda>old. if conflict_key old = conflict_key r then r else old) t)
        = map conflict_key t"
    by (induction t) simp_all
  then show ?thesis by (simp add: upsert_row_def stored_keys_def)
qed

lemma stored_keys_upsert_row: "stored_keys (upsert_row t r) = insert (conflict_key r) (stored_keys t)"
  using keys_upsert_row [of t r] by (auto simp: stored_keys_def)

lemma length_upsert_row:
  "conflict_key r \<in> stored_keys t \<Longrightarrow> length (upsert_row t r) = length t"
  by (simp add: upsert_row_def stored_keys_def)

lemma distinct_upsert_row:
  "distinct (map conflict_key t) \<Longrightarrow> distinct (map conflict_key (upsert_row t r))"
  by (simp add: keys_upsert_row stored_keys_def)

lemma stored_keys_foldl:
  "stored_keys (foldl upsert_row t b) = stored_keys t \<union> stored_keys b"
proof (induction b arbitrary: t)
  case Nil
  show ?case by (simp add: stored_keys_def)
next
  case (Cons r b)
  have "stored_keys (r # b) = insert (conflict_key r) (stored_keys b)"
    by (simp add: stored_keys_def)
  then show ?case by (simp add: Cons.IH stored_keys_upsert_row)
qed

lemma length_foldl_upsert:
  "stored_keys b \<subseteq> stored_keys t \<Longrightarrow> length (foldl upsert_row t b) = length t"
proof (induction b arbitrary: t)
  case Nil
  show ?case by simp
next
  case (Cons r b)
  have here: "conflict_key r \<in> stored_keys t" and rest: "stored_keys b \<subseteq> stored_keys t"
    using Cons.prems by (simp_all add: stored_keys_def)
  from rest have "stored_keys b \<subseteq> stored_keys (upsert_row t r)"
    by (auto simp: stored_keys_upsert_row)
  then have "length (foldl upsert_row (upsert_row t r) b) = length (upsert_row t r)"
    by (rule Cons.IH)
  with here show ?case by (simp add: length_upsert_row)
qed

lemma distinct_foldl_upsert:
  "distinct (map conflict_key t) \<Longrightarrow> distinct (map conflict_key (foldl upsert_row t b))"
  by (induction b arbitrary: t) (simp_all add: distinct_upsert_row)

lemma table_upsert_snd:
  "snd (table_upsert rejects t b) = (if accepted rejects b then foldl upsert_row t b else t)"
  by (simp add: table_upsert_def accepted_def)

lemma table_upsert_fst:
  "fst (table_upsert rejects t b) = fst (table_upsert rejects t' b)"
  by (simp add: table_upsert_def)

lemma table_results_independent:
  "fst (batch_results (table_upsert rejects) t bs) = fst (batch_results (table_upsert rejects) t' bs)"
proof (induction bs arbitrary: t t')
  case Nil
  show ?case by simp
next
  case (Cons b bs)
  show ?case
    unfolding batch_results_Cons
    using table_upsert_fst [of rejects t b t']
      Cons.IH [of "snd (table_upsert rejects t b)" "snd (table_upsert rejects t' b)"]
    by simp
qed

lemma stored_keys_batches:
  "stored_keys (snd (batch_results (table_upsert rejects) t bs))
   = stored_keys t \<union> (\<Union>b \<in> {b \<in> set bs. accepted rejects b}. stored_keys b)"
proof (induction bs arbitrary: t)
  case Nil
  show ?case by simp
next
  case (Cons b bs)
  show ?case
    unfolding batch_results_Cons
    by (auto simp: Cons.IH table_upsert_snd stored_keys_foldl)
qed

lemma length_batches_known:
  "(\<forall>b \<in> set bs. accepted rejects b \<longrightarrow> stored_keys b \<subseteq> stored_keys t) \<Longrightarrow>
   length (snd (batch_results (table_upsert rejects) t bs)) = length t"
proof (induction bs arbitrary: t)
  case Nil
  show ?case by simp
next
  case (Cons b bs)
  let ?t = "snd (table_upsert rejects t b)"
  have len: "length ?t = length t" and keys: "stored_keys t \<subseteq> stored_keys ?t"
    using Cons.prems by (auto simp: table_upsert_snd length_foldl_upsert stored_keys_foldl)
  have "\<forall>b \<in> set bs. accepted rejects b \<longrightarrow> stored_keys b \<subseteq> stored_keys ?t"
    using Cons.prems keys by auto
  then have "length (snd (batch_results (table_upsert rejects) ?t bs)) = length ?t"
    by (rule Cons.IH)
  with len show ?case unfolding batch_results_Cons by simp
qed

lemma distinct_batches:
  "distinct (map conflict_key t) \<Longrightarrow>
   distinct (map conflict_key (snd (batch_results (table_upsert rejects) t bs)))"
proof (induction bs arbitrary: t)
  case Nil
  then show ?case by simp
next
  case (Cons b bs)
  then show ?case
    unfolding batch_results_Cons
    by (simp add: table_upsert_snd distinct_foldl_upsert)
qed

lemma batches_twice:
  fixes rejects t bs
  defines "once \<equiv> snd (batch_results (table_upsert rejects) t bs)"
  defines "twice \<equiv> snd (batch_results (table_upsert rejects) once bs)"
  shows "length twice = length once" and "stored_keys twice = stored_keys once"
proof -
  have known: "\<forall>b \<in> set bs. accepted rejects b \<longrightarrow> stored_keys b \<subseteq> stored_keys once"
    unfolding once_def stored_keys_batches by auto
  then show "length twice = length once"
    unfolding twice_def by (rule length_batches_known)
  show "stored_keys twice = stored_keys once"
    using known unfolding twice_def stored_keys_batches by auto
qed

text \<open>A city's sync acts on the table as a fixed list of batches, or not at all.\<close>

lemma syncCityData_as_batches:
  "\<exists>bs. \<forall>t. snd (syncCityData e (table_upsert rejects) c t)
              = snd (batch_results (table_upsert rejects) t bs) \<and>
            fst (syncCityData e (table_upsert rejects) c t)
              = fst (syncCityData e (table_upsert rejects) c [])"
proof (cases "city_source e c")
  case None
  then have "\<forall>t. snd (syncCityData e (table_upsert rejects) c t)
              = snd (batch_results (table_upsert rejects) t []) \<and>
            fst (syncCityData e (table_upsert rejects) c t)
              = fst (syncCityData e (table_upsert rejects) c [])"
    by (simp add: syncCityData_def)
  then show ?thesis by blast
next
  case (Some src)
  obtain fr parse where src: "src = (fr, parse)" by (cases src)
  show ?thesis
  proof (cases "\<not> FetchResult.success fr \<or> \<not> truthy (FetchResult.data fr)")
    case True
    with Some src have "\<forall>t. snd (syncCityData e (table_upsert rejects) c t)
              = snd (batch_results (table_upsert rejects) t []) \<and>
            fst (syncCityData e (table_upsert rejects) c t)
              = fst (syncCityData e (table_upsert rejects) c [])"
      by (auto simp add: syncCityData_def)
    then show ?thesis by blast
  next
    case False
    define bs where "bs = chunks batchSize
        (map dbRecord (normalizeData (parse (the (FetchResult.data fr))) (Some c)))"
    have "\<forall>t. snd (syncCityData e (table_upsert rejects) c t)
              = snd (batch_results (table_upsert rejects) t bs) \<and>
            fst (syncCityData e (table_upsert rejects) c t)
              = fst (syncCityData e (table_upsert rejects) c [])"
    proof (intro allI conjI)
      fix t
      show "snd (syncCityData e (table_upsert rejects) c t)
              = snd (batch_results (table_upsert rejects) t bs)"
        using Some src False
        by (simp add: syncCityData_def Let_def upsert_batches_chunks bs_def split: prod.splits)
      show "fst (syncCityData e (table_upsert rejects) c t)
              = fst (syncCityData e (table_upsert rejects) c [])"
        using Some src False table_results_independent [of rejects t bs "[]"]
        by (simp add: syncCityData_def Let_def upsert_batches_chunks bs_def split: prod.splits)
    qed
    then show ?thesis by blast
  qed
qed

text \<open>
  C2. On the land table, syncing a city a second time against the same upstream leaves
  the number of stored rows and the set of stored keys as the first sync left them, and
  reports the same result; a table whose keys are pairwise different stays so. (Whether
  a batch is refused depends on the batch alone, so the second run refuses the batches
  the first one refused and rewrites the rows the first one wrote.)
\<close>

theorem sync_twice_same_count:
  "length (snd (syncCityData e (table_upsert rejects) c
             (snd (syncCityData e (table_upsert rejects) c table))))
     = length (snd (syncCityData e (table_upsert rejects) c table)) \<and>
   stored_keys (snd (syncCityData e (table_upsert rejects) c
             (snd (syncCityData e (table_upsert rejects) c table))))
     = stored_keys (snd (syncCityData e (table_upsert rejects) c table)) \<and>
   fst (syncCityData e (table_upsert rejects) c (snd (syncCityData e (table_upsert rejects) c table)))
     = fst (syncCityData e (table_upsert rejects) c table) \<and>
   (distinct (map conflict_key table) \<longrightarrow>
      distinct (map conflict_key (snd (syncCityData e (table_upsert rejects) c table))))"
proof -
  obtain bs where bs: "\<And>t. snd (syncCityData e (table_upsert rejects) c t)
              = snd (batch_results (table_upsert rejects) t bs)"
    and res: "\<And>t. fst (syncCityData e (table_upsert rejects) c t)
              = fst (syncCityData e (table_upsert rejects) c [])"
    using syncCityData_as_batches [of e rejects c] by blast
  show ?thesis
    using batches_twice [of rejects table bs] distinct_batches [of table rejects bs]
      res [of table] res [of "snd (syncCityData e (table_upsert rejects) c table)"]
    by (simp add: bs)
qed


lemma sync_taipei_table:
  "\<exists>x. snd (syncCityData partial_failure_env (table_upsert accept_all) Taipei_City []) = [x]"
proof -
  let ?parse = "\<lambda>csv. TaipeiParser_parse (parseFloat partial_failure_env)
                   (papaParse partial_failure_env True csv)"
  let ?fr = "\<lparr>FetchResult.success = True, data = Some (str ''taipei.csv''), FetchResult.error = None,
            FetchResult.recordCount = Some 5\<rparr>"
  let ?nd = "normalizeData (?parse (the (FetchResult.data ?fr))) (Some Taipei_City)"
  have "length ?nd = 1"
    by (simp add: normalizeData_def TaipeiParser_parse_def TaipeiParser_keep_def
        partial_failure_env_def land_only_row_def col_def)
  then obtain x where x: "?nd = [x]"
    by (cases ?nd) simp_all
  have ok: "FetchResult.success ?fr" "truthy (FetchResult.data ?fr)"
    by simp_all
  have "snd (upsert_batches (table_upsert accept_all) [x] 0 0 []) = [dbRecord x]"
    by (simp add: upsert_batches_chunks batchSize_def chunks_single table_upsert_def accept_all_def
        upsert_row_def)
  then show ?thesis
    using syncCityData_fetched [OF taipei_source ok, of "table_upsert accept_all" "[]", unfolded x]
    by simp
qed

theorem sync_twice_same_count_witness:
  "distinct (map conflict_key []) \<and>
   length (snd (syncCityData partial_failure_env (table_upsert accept_all) Taipei_City [])) = 1 \<and>
   length (snd (syncCityData partial_failure_env (table_upsert accept_all) Taipei_City
             (snd (syncCityData partial_failure_env (table_upsert accept_all) Taipei_City [])))) = 1 \<and>
   distinct (map conflict_key
     (snd (syncCityData partial_failure_env (table_upsert accept_all) Taipei_City [])))"
proof -
  obtain x where once: "snd (syncCityData partial_failure_env (table_upsert accept_all) Taipei_City []) = [x]"
    using sync_taipei_table by blast
  have empty: "distinct (map conflict_key [])" by simp
  show ?thesis
    using sync_twice_same_count [of partial_failure_env accept_all Taipei_City "[]"] empty
    by (simp add: once)
qed


end
